theory Spec2Isabelle
  imports Main
begin

section \<open>The document\<close>

text \<open>
  The controller (cascade-controller.js) and the replacement UI (custom-ui.js) work on the
  document of the host application. The document is modelled as a tree: an element carries
  the attributes the code reads or writes (tag name, id, class name, further attributes,
  the declarations of its inline style, and the box \<open>getBoundingClientRect\<close> reports for
  it), and its child nodes; a text node carries its text.

  Indices and counts are JavaScript numbers holding integers; strings are \<open>string\<close>.
\<close>

record attrs =
  tagName :: string
  ident :: string
  className :: string
  attributes :: "(string \<times> string) list"
  style :: "(string \<times> string) list"
  rectWidth :: int
  rectHeight :: int

datatype node = Text string | Element attrs "node list"

record document =
  head :: "node list"
  body :: "node list"

text \<open>The elements of a subtree in document order (preorder), the root included.\<close>

fun subtree :: "node \<Rightarrow> node list" where
  "subtree (Text s) = []"
| "subtree (Element a ks) = Element a ks # concat (map subtree ks)"

definition elements :: "node list \<Rightarrow> node list" where
  "elements ns = concat (map subtree ns)"

definition descendants :: "node \<Rightarrow> node list" where
  "descendants n = (case n of Text s \<Rightarrow> [] | Element a ks \<Rightarrow> elements ks)"

definition documentElements :: "document \<Rightarrow> node list" where
  "documentElements d = elements (head d) @ elements (body d)"

text \<open>
  \<open>innerText\<close> is read as the concatenated text of the subtree (the value of
  \<open>textContent\<close>); the layout-dependent formatting of \<open>innerText\<close> is not modelled.
\<close>

fun innerText :: "node \<Rightarrow> string" where
  "innerText (Text s) = s"
| "innerText (Element a ks) = concat (map innerText ks)"

definition the_attrs :: "node \<Rightarrow> attrs option" where
  "the_attrs n = (case n of Text s \<Rightarrow> None | Element a ks \<Rightarrow> Some a)"

subsection \<open>Strings\<close>

text \<open>\<open>String.prototype.includes\<close>: the second string occurs in the first.\<close>

fun str_includes :: "string \<Rightarrow> string \<Rightarrow> bool" where
  "str_includes [] sub = (sub = [])"
| "str_includes (c # cs) sub = (take (length sub) (c # cs) = sub \<or> str_includes cs sub)"

definition is_space :: "char \<Rightarrow> bool" where
  "is_space c = (c = CHR '' '' \<or> c = CHR 0x09 \<or> c = CHR 0x0A \<or> c = CHR 0x0C \<or> c = CHR 0x0D)"

text \<open>\<open>classList\<close>: the class name split at white space.\<close>

fun split_acc :: "string \<Rightarrow> string \<Rightarrow> string list" where
  "split_acc cur [] = (if cur = [] then [] else [cur])"
| "split_acc cur (c # cs) =
     (if is_space c then (if cur = [] then split_acc [] cs else cur # split_acc [] cs)
      else split_acc (cur @ [c]) cs)"

definition classList :: "string \<Rightarrow> string list" where
  "classList s = split_acc [] s"

text \<open>Template literals print a number in decimal.\<close>

definition digit_char :: "nat \<Rightarrow> char" where
  "digit_char d = char_of (48 + d)"

fun string_of_nat :: "nat \<Rightarrow> string" where
  "string_of_nat n =
     (if n < 10 then [digit_char n] else string_of_nat (n div 10) @ [digit_char (n mod 10)])"

declare string_of_nat.simps [simp del]

definition string_of_int :: "int \<Rightarrow> string" where
  "string_of_int i = (if i < 0 then CHR ''-'' # string_of_nat (nat (- i)) else string_of_nat (nat i))"

subsection \<open>Selectors\<close>

text \<open>The selectors the code uses, each as a predicate on a node.\<close>

definition has_class :: "string \<Rightarrow> node \<Rightarrow> bool" where
  "has_class c n = (case n of Text s \<Rightarrow> False | Element a ks \<Rightarrow> c \<in> set (classList (className a)))"

definition has_attr :: "string \<Rightarrow> string \<Rightarrow> node \<Rightarrow> bool" where
  "has_attr k v n = (case n of Text s \<Rightarrow> False | Element a ks \<Rightarrow> map_of (attributes a) k = Some v)"

definition has_tag :: "string \<Rightarrow> node \<Rightarrow> bool" where
  "has_tag t n = (case n of Text s \<Rightarrow> False | Element a ks \<Rightarrow> tagName a = t)"

definition has_id :: "string \<Rightarrow> node \<Rightarrow> bool" where
  "has_id i n = (case n of Text s \<Rightarrow> False | Element a ks \<Rightarrow> ident a = i)"

text \<open>\<open>.chat-client-root\<close>\<close>
definition sel_panel :: "node \<Rightarrow> bool" where
  "sel_panel = has_class ''chat-client-root''"

text \<open>\<open>[contenteditable="true"]\<close>\<close>
definition sel_input :: "node \<Rightarrow> bool" where
  "sel_input = has_attr ''contenteditable'' ''true''"

text \<open>\<open>button.rounded-full\<close>\<close>
definition sel_button :: "node \<Rightarrow> bool" where
  "sel_button n = (has_tag ''button'' n \<and> has_class ''rounded-full'' n)"

text \<open>\<open>button.rounded-full:not(.cursor-not-allowed)\<close>\<close>
definition sel_button_enabled :: "node \<Rightarrow> bool" where
  "sel_button_enabled n = (sel_button n \<and> \<not> has_class ''cursor-not-allowed'' n)"

text \<open>\<open>.cascade-scrollbar\<close>\<close>
definition sel_scrollArea :: "node \<Rightarrow> bool" where
  "sel_scrollArea = has_class ''cascade-scrollbar''"

text \<open>\<open>querySelectorAll\<close> on the document and \<open>querySelector\<close> on an element.\<close>

definition querySelectorAll :: "(node \<Rightarrow> bool) \<Rightarrow> document \<Rightarrow> node list" where
  "querySelectorAll sel d = filter sel (documentElements d)"

definition querySelector :: "(node \<Rightarrow> bool) \<Rightarrow> node \<Rightarrow> node option" where
  "querySelector sel n = List.find sel (descendants n)"

text \<open>\<open>panels[idx]\<close>: \<open>undefined\<close> outside the range.\<close>

definition at_index :: "'a list \<Rightarrow> int \<Rightarrow> 'a option" where
  "at_index xs i = (if 0 \<le> i \<and> i < int (length xs) then Some (xs ! nat i) else None)"

section \<open>Panel Locator\<close>

record panel_core =
  index :: int
  visible :: bool
  inputContent :: string
  buttonEnabled :: bool

record panel_info = panel_core +
  panel_id :: "string option"

record panel_state = panel_core +
  totalPanels :: int

text \<open>
  The result of \<open>getPanelState\<close>: the record with the fields \<open>error\<close> and
  \<open>totalPanels\<close>, or the state of the panel.
\<close>

datatype panel_result = PanelNotFound string int | PanelFound panel_state

definition rect_visible :: "node \<Rightarrow> bool" where
  "rect_visible n = (case n of Text s \<Rightarrow> False | Element a ks \<Rightarrow> rectWidth a > 0 \<and> rectHeight a > 0)"

text \<open>\<open>input?.innerText || ''\<close>\<close>
definition input_text :: "node \<Rightarrow> string" where
  "input_text panel = (case querySelector sel_input panel of None \<Rightarrow> [] | Some i \<Rightarrow> innerText i)"

text \<open>\<open>btn ? !btn.className.includes('cursor-not-allowed') : false\<close>\<close>
definition button_enabled :: "node \<Rightarrow> bool" where
  "button_enabled panel =
     (case querySelector sel_button panel of
        None \<Rightarrow> False
      | Some btn \<Rightarrow> (case the_attrs btn of
                      None \<Rightarrow> False
                    | Some a \<Rightarrow> \<not> str_includes (className a) ''cursor-not-allowed''))"

definition getPanelState :: "document \<Rightarrow> int \<Rightarrow> panel_result" where
  "getPanelState d idx =
     (let panels = querySelectorAll sel_panel d in
      case at_index panels idx of
        None \<Rightarrow> PanelNotFound (''Panel '' @ string_of_int idx @ '' not found'') (int (length panels))
      | Some panel \<Rightarrow>
          PanelFound \<lparr> index = idx,
                       visible = rect_visible panel,
                       inputContent = input_text panel,
                       buttonEnabled = button_enabled panel,
                       totalPanels = int (length panels) \<rparr>)"

definition panel_entry :: "node \<Rightarrow> nat \<Rightarrow> panel_info" where
  "panel_entry panel i =
     \<lparr> index = int i,
       visible = rect_visible panel,
       inputContent = take 50 (input_text panel),
       buttonEnabled = button_enabled panel,
       panel_id = (case the_attrs panel of
                     None \<Rightarrow> None
                   | Some a \<Rightarrow> if ident a = [] then None else Some (ident a)) \<rparr>"

definition listPanels :: "document \<Rightarrow> panel_info list" where
  "listPanels d =
     (let panels = querySelectorAll sel_panel d in
      map (\<lambda>(panel, i). panel_entry panel i) (zip panels [0 ..< length panels]))"

section \<open>The host application\<close>

text \<open>
  Between two steps of the controller the host application changes its document on its own
  and reacts to the input sent to it. It is a parameter of the model: a state of type \<open>'h\<close>
  with the document that \<open>page.evaluate\<close> sees in it, what the application does while the
  controller sleeps, and how it reacts to a command on the input channel, to the focus
  sequence on the compose surface of a panel and to a click on a submit control.
  \<open>isFocused\<close> is the value of
  \<open>document.activeElement === input || input.contains(document.activeElement)\<close>.
\<close>

record key_event =
  evType :: string
  key :: "string option"
  code :: "string option"
  evText :: "string option"
  modifiers :: "int option"
  windowsVirtualKeyCode :: "int option"

datatype cdp_command = DispatchKeyEvent key_event | InsertText string

record 'h host =
  view :: "'h \<Rightarrow> document"
  elapse :: "nat \<Rightarrow> 'h \<Rightarrow> 'h"
  cdp :: "cdp_command \<Rightarrow> 'h \<Rightarrow> 'h"
  focusInput :: "int \<Rightarrow> 'h \<Rightarrow> 'h"
  isFocused :: "int \<Rightarrow> 'h \<Rightarrow> bool"
  clickSubmit :: "int \<Rightarrow> 'h \<Rightarrow> 'h"

text \<open>
  The world of the controller: the clock \<open>Date.now()\<close> reads, the state of the host
  application, and the commands sent so far on the input channel (\<open>cdpClient.send\<close>).
  \<open>sleep\<close> lets the given number of milliseconds pass; an evaluation in the page takes no
  time.
\<close>

record 'h world =
  clock :: int
  app :: 'h
  dispatched :: "cdp_command list"

definition sleep :: "'h host \<Rightarrow> nat \<Rightarrow> 'h world \<Rightarrow> 'h world" where
  "sleep H ms w = w\<lparr> clock := clock w + int ms, app := elapse H ms (app w) \<rparr>"

definition cdpSend :: "'h host \<Rightarrow> cdp_command \<Rightarrow> 'h world \<Rightarrow> 'h world" where
  "cdpSend H c w = w\<lparr> app := cdp H c (app w), dispatched := dispatched w @ [c] \<rparr>"

definition page :: "'h host \<Rightarrow> 'h world \<Rightarrow> document" where
  "page H w = view H (app w)"

definition keyEvent :: "string \<Rightarrow> string \<Rightarrow> key_event" where
  "keyEvent t k = \<lparr> evType = t, key = Some k, code = None, evText = None,
                    modifiers = None, windowsVirtualKeyCode = None \<rparr>"

section \<open>Controller: send\<close>

record send_options =
  clear :: bool
  submit :: bool

definition default_options :: send_options where
  "default_options = \<lparr> clear = True, submit = True \<rparr>"

text \<open>
  The result of the first evaluation of \<open>send\<close>: \<open>{ error }\<close> or
  \<open>{ focused, panelIndex }\<close>.
\<close>

datatype focus_result = FocusError string | Focus bool int

text \<open>
  The three results of \<open>send\<close>: \<open>{ sent: false, error }\<close>, \<open>{ sent: true, message }\<close> and
  \<open>{ sent: false, buttonEnabled, inputContent }\<close>. The last two fields are those of the
  panel state read after typing; they are \<open>undefined\<close> (\<open>None\<close>) when that state is the
  error record.
\<close>

datatype send_result =
    SendError string
  | Sent string
  | NotSent "bool option" "string option"

definition sent :: "send_result \<Rightarrow> bool" where
  "sent r = (case r of Sent m \<Rightarrow> True | _ \<Rightarrow> False)"

definition focusPanel :: "'h host \<Rightarrow> int \<Rightarrow> 'h world \<Rightarrow> focus_result \<times> 'h world" where
  "focusPanel H idx w =
     (let panels = querySelectorAll sel_panel (page H w) in
      case at_index panels idx of
        None \<Rightarrow> (FocusError ''Panel not found'', w)
      | Some panel \<Rightarrow>
          (case querySelector sel_input panel of
             None \<Rightarrow> (FocusError ''Input not found'', w)
           | Some inp \<Rightarrow>
               let w' = w\<lparr> app := focusInput H idx (app w) \<rparr>
               in (Focus (isFocused H idx (app w')) idx, w')))"

text \<open>Select all (Meta+a) and delete (Backspace).\<close>

definition clearInput :: "'h host \<Rightarrow> 'h world \<Rightarrow> 'h world" where
  "clearInput H w =
     (let w1 = cdpSend H (DispatchKeyEvent ((keyEvent ''keyDown'' ''Meta'')\<lparr> modifiers := Some 8 \<rparr>)) w;
          w2 = cdpSend H (DispatchKeyEvent ((keyEvent ''keyDown'' ''a'')\<lparr> modifiers := Some 8 \<rparr>)) w1;
          w3 = cdpSend H (DispatchKeyEvent (keyEvent ''keyUp'' ''a'')) w2;
          w4 = cdpSend H (DispatchKeyEvent (keyEvent ''keyUp'' ''Meta'')) w3;
          w5 = sleep H 50 w4;
          w6 = cdpSend H (DispatchKeyEvent (keyEvent ''keyDown'' ''Backspace'')) w5;
          w7 = cdpSend H (DispatchKeyEvent (keyEvent ''keyUp'' ''Backspace'')) w6
      in sleep H 100 w7)"

definition charEvent :: "char \<Rightarrow> cdp_command" where
  "charEvent c = DispatchKeyEvent \<lparr> evType = ''char'', key = None, code = None, evText = Some [c],
                                    modifiers = None, windowsVirtualKeyCode = None \<rparr>"

fun typeMessage :: "'h host \<Rightarrow> string \<Rightarrow> 'h world \<Rightarrow> 'h world" where
  "typeMessage H [] w = w"
| "typeMessage H (c # cs) w = typeMessage H cs (sleep H 15 (cdpSend H (charEvent c) w))"

text \<open>
  \<open>panels[idx]?.querySelector('button.rounded-full:not(.cursor-not-allowed)')\<close> and
  \<open>btn?.click()\<close>.
\<close>

definition clickSend :: "'h host \<Rightarrow> int \<Rightarrow> 'h world \<Rightarrow> 'h world" where
  "clickSend H idx w =
     (case at_index (querySelectorAll sel_panel (page H w)) idx of
        None \<Rightarrow> w
      | Some panel \<Rightarrow>
          (case querySelector sel_button_enabled panel of
             None \<Rightarrow> w
           | Some btn \<Rightarrow> w\<lparr> app := clickSubmit H idx (app w) \<rparr>))"

definition state_buttonEnabled :: "panel_result \<Rightarrow> bool option" where
  "state_buttonEnabled r = (case r of PanelNotFound e n \<Rightarrow> None | PanelFound st \<Rightarrow> Some (buttonEnabled st))"

definition state_inputContent :: "panel_result \<Rightarrow> string option" where
  "state_inputContent r = (case r of PanelNotFound e n \<Rightarrow> None | PanelFound st \<Rightarrow> Some (inputContent st))"

definition send :: "'h host \<Rightarrow> int \<Rightarrow> string \<Rightarrow> send_options \<Rightarrow> 'h world \<Rightarrow> send_result \<times> 'h world" where
  "send H idx message options w =
     (case focusPanel H idx w of
        (FocusError e, w0) \<Rightarrow> (SendError e, w0)
      | (Focus f p, w0) \<Rightarrow>
          (let w1 = sleep H 200 w0;
               w2 = (if clear options then clearInput H w1 else w1);
               w3 = typeMessage H message w2;
               w4 = sleep H 200 w3;
               state = getPanelState (page H w4) idx
           in if submit options \<and> state_buttonEnabled state = Some True
              then (Sent message, clickSend H idx w4)
              else (NotSent (state_buttonEnabled state) (state_inputContent state), w4)))"

section \<open>Controller: getResponse\<close>

text \<open>
  The result of \<open>getResponse\<close>: \<open>{ response, stable: true }\<close> or
  \<open>{ response, timeout: true }\<close>; a flag that is absent is \<open>False\<close>.
\<close>

record response_result =
  response :: string
  stable :: bool
  timeout :: bool

text \<open>The text read by one poll: \<open>scrollArea?.innerText || ''\<close>.\<close>

definition readTranscript :: "document \<Rightarrow> int \<Rightarrow> string" where
  "readTranscript d idx =
     (case at_index (querySelectorAll sel_panel d) idx of
        None \<Rightarrow> []
      | Some panel \<Rightarrow>
          (case querySelector sel_scrollArea panel of
             None \<Rightarrow> []
           | Some scrollArea \<Rightarrow> innerText scrollArea))"

function getResponse_loop ::
  "'h host \<Rightarrow> int \<Rightarrow> int \<Rightarrow> int \<Rightarrow> 'h world \<Rightarrow> string \<Rightarrow> response_result \<times> 'h world" where
  "getResponse_loop H idx startTime waitMs w lastContent =
     (if clock w - startTime < waitMs then
        (if readTranscript (page H w) idx \<noteq> lastContent
         then getResponse_loop H idx startTime waitMs (sleep H 500 w) (readTranscript (page H w) idx)
         else if readTranscript (page H w) idx \<noteq> []
         then (\<lparr> response = readTranscript (page H w) idx, stable = True, timeout = False \<rparr>, w)
         else getResponse_loop H idx startTime waitMs (sleep H 200 w) lastContent)
      else (\<lparr> response = lastContent, stable = False, timeout = True \<rparr>, w))"
  by pat_completeness auto
termination
  by (relation "measure (\<lambda>(H, idx, startTime, waitMs, w, lastContent).
                  nat (waitMs - (clock w - startTime)))")
     (auto simp: sleep_def)

declare getResponse_loop.simps [simp del]

definition getResponse :: "'h host \<Rightarrow> int \<Rightarrow> int \<Rightarrow> 'h world \<Rightarrow> response_result \<times> 'h world" where
  "getResponse H idx waitMs w = getResponse_loop H idx (clock w) waitMs w []"

section \<open>Controller: spawnCascade\<close>


definition panelCount_of :: "document \<Rightarrow> int" where
  "panelCount_of d = int (length (querySelectorAll sel_panel d))"


section \<open>Replacement UI: createUI\<close>

text \<open>
  The snapshot \<open>extract()\<close> returns, as far as \<open>createUI\<close> and the mount sequence read
  it: the panel elements, the names of the handler groups, and one conversation per panel.
  A message keeps the raw markup of its element in \<open>html\<close>, a conversation that of its
  transcript in \<open>fullHTML\<close>.
\<close>

record message =
  role :: string
  content :: string
  html :: string
  timestamp :: int

record conversation =
  c_index :: int
  messages :: "message list"
  fullText :: string
  fullHTML :: string
  c_inputContent :: string

record extraction =
  snap_panels :: "node list"
  handlers :: "string list"
  conversations :: "conversation list"

record customUI =
  root :: node
  agentHub :: node
  panels :: "node list"
  toolbar :: node

text \<open>
  \<open>document.createElement\<close> gives an element without attributes, style or children, not
  laid out. Assigning \<open>style.cssText\<close> installs the declarations of the text, kept here as
  pairs of property and value in the order written. Assigning \<open>textContent\<close> replaces the
  children by one text node, or by none for the empty string. Event listeners and the
  \<open>_cascadeRefs\<close> property are not part of the tree.
\<close>

definition createElement :: "string \<Rightarrow> attrs" where
  "createElement t = \<lparr> tagName = t, ident = [], className = [], attributes = [], style = [],
                        rectWidth = 0, rectHeight = 0 \<rparr>"

definition textNodes :: "string \<Rightarrow> node list" where
  "textNodes s = (if s = [] then [] else [Text s])"

definition bytes :: "nat list \<Rightarrow> string" where
  "bytes ns = map char_of ns"

datatype variant = Default | Primary | Danger | Small

definition variantStyle :: "variant \<Rightarrow> (string \<times> string) list" where
  "variantStyle v = (case v of
       Default \<Rightarrow> [(''background'', ''rgba(255,255,255,0.1)''), (''color'', ''#e0e0e0'')]
     | Primary \<Rightarrow> [(''background'', ''#00d4ff''), (''color'', ''#1a1a2e'')]
     | Danger \<Rightarrow> [(''background'', ''rgba(255,80,80,0.2)''), (''color'', ''#ff5050'')]
     | Small \<Rightarrow> [(''background'', ''rgba(255,255,255,0.05)''), (''color'', ''#888''),
                 (''padding'', ''4px 8px''), (''font-size'', ''11px'')])"

definition createButton :: "string \<Rightarrow> variant \<Rightarrow> node" where
  "createButton label v =
     Element ((createElement ''button'')
        \<lparr> style := variantStyle v @
             [(''border'', ''none''), (''border-radius'', ''6px''), (''padding'', ''8px 16px''),
              (''font-size'', ''12px''), (''font-weight'', ''600''), (''cursor'', ''pointer''),
              (''transition'', ''all 0.2s''), (''outline'', ''none'')] \<rparr>)
       (textNodes label)"

definition createToolbar :: "extraction \<Rightarrow> node" where
  "createToolbar ex =
     (let title = Element ((createElement ''div'')
            \<lparr> style := [(''font-size'', ''18px''), (''font-weight'', ''600''), (''color'', ''#00d4ff''),
                          (''flex'', ''1''), (''letter-spacing'', ''0.5px'')] \<rparr>)
            (textNodes ''Cascade Hub'');
          badge = Element ((createElement ''div'')
            \<lparr> ident := ''panel-count-badge'',
               style := [(''background'', ''#00d4ff''), (''color'', ''#1a1a2e''), (''padding'', ''4px 10px''),
                          (''border-radius'', ''12px''), (''font-size'', ''12px''),
                          (''font-weight'', ''700'')] \<rparr>)
            (textNodes (string_of_nat (length (conversations ex))));
          newBtn = createButton ''+ New'' Default;
          closeBtn = createButton (bytes [0xC3, 0xA2, 0xC5, 0x93, 0xE2, 0x80, 0xA2]) Danger
      in Element ((createElement ''div'')
            \<lparr> ident := ''cascade-toolbar'',
               style := [(''height'', ''56px''), (''background'', ''rgba(0,0,0,0.3)''),
                          (''border-bottom'', ''1px solid rgba(255,255,255,0.1)''), (''display'', ''flex''),
                          (''align-items'', ''center''), (''padding'', ''0 16px''), (''gap'', ''12px''),
                          (''flex-shrink'', ''0'')] \<rparr>)
           [title, badge, newBtn, closeBtn])"

record agent =
  agent_name :: string
  emoji :: string
  status :: string

definition agents :: "agent list" where
  "agents =
     [\<lparr> agent_name = ''Scout'', emoji = bytes [0xC3, 0xB0, 0xC5, 0xB8, 0xE2, 0x80, 0x9D], status = ''active'' \<rparr>,
      \<lparr> agent_name = ''Builder'', emoji = bytes [0xC3, 0xB0, 0xC5, 0xB8, 0xE2, 0x80, 0x9D, 0xC2, 0xA8], status = ''idle'' \<rparr>,
      \<lparr> agent_name = ''Reviewer'', emoji = bytes [0xC3, 0xA2, 0xC5, 0x93, 0xE2, 0x80, 0xA6], status = ''idle'' \<rparr>,
      \<lparr> agent_name = ''Debugger'', emoji = bytes [0xC3, 0xB0, 0xC5, 0xB8, 0xE2, 0x80, 0xBA], status = ''idle'' \<rparr>,
      \<lparr> agent_name = ''Optimizer'', emoji = bytes [0xC3, 0xA2, 0xC5, 0xA1, 0xC2, 0xA1], status = ''idle'' \<rparr>,
      \<lparr> agent_name = ''Tester'', emoji = bytes [0xC3, 0xB0, 0xC5, 0xB8, 0xC2, 0xA7, 0xC2, 0xAA], status = ''idle'' \<rparr>]"

definition agentSlot :: "agent \<Rightarrow> node" where
  "agentSlot ag =
     (let active = (status ag = ''active'');
          emojiEl = Element ((createElement ''div'')
            \<lparr> style := [(''font-size'', ''20px''), (''margin-bottom'', ''4px'')] \<rparr>)
            (textNodes (emoji ag));
          nameEl = Element ((createElement ''div'')
            \<lparr> style := [(''font-size'', ''11px''), (''font-weight'', ''500''),
                          (''color'', if active then ''#00d4ff'' else ''#888'')] \<rparr>)
            (textNodes (agent_name ag))
      in Element ((createElement ''div'')
            \<lparr> className := ''agent-slot'',
               attributes := [(''data-status'', status ag)],
               style := [(''background'', if active then ''rgba(0,212,255,0.2)'' else ''rgba(255,255,255,0.05)''),
                          (''border'', if active then ''1px solid #00d4ff'' else ''1px solid rgba(255,255,255,0.1)''),
                          (''border-radius'', ''8px''), (''padding'', ''8px''), (''text-align'', ''center''),
                          (''cursor'', ''pointer''), (''transition'', ''all 0.2s'')] \<rparr>)
           [emojiEl, nameEl])"

definition createAgentHub :: "extraction \<Rightarrow> node" where
  "createAgentHub ex =
     (let hubTitle = Element ((createElement ''div'')
            \<lparr> style := [(''font-size'', ''14px''), (''font-weight'', ''600''), (''margin-bottom'', ''12px''),
                          (''color'', ''#00d4ff'')] \<rparr>)
            (textNodes (bytes [0xC3, 0xA2, 0xC5, 0xA1, 0xC2, 0xA1] @ '' Agent Hub''));
          slots = Element ((createElement ''div'')
            \<lparr> style := [(''display'', ''grid''), (''grid-template-columns'', ''repeat(3, 1fr)''),
                          (''gap'', ''8px'')] \<rparr>)
            (map agentSlot agents)
      in Element ((createElement ''div'')
            \<lparr> ident := ''agent-hub'',
               style := [(''background'', ''rgba(0,0,0,0.3)''),
                          (''border-bottom'', ''1px solid rgba(255,255,255,0.1)''), (''padding'', ''16px''),
                          (''flex-shrink'', ''0'')] \<rparr>)
           [hubTitle, slots])"

text \<open>One message block of \<open>createPanel\<close>: styled by the role, its text assigned to \<open>textContent\<close>.\<close>

definition messageBlock :: "message \<Rightarrow> node" where
  "messageBlock msg =
     Element ((createElement ''div'')
        \<lparr> style := [(''margin-bottom'', ''16px''), (''padding'', ''10px 12px''), (''border-radius'', ''8px''),
                      (''background'', if role msg = ''user'' then ''rgba(0,212,255,0.1)''
                                       else ''rgba(255,255,255,0.05)''),
                      (''border-left'', if role msg = ''user'' then ''3px solid #00d4ff''
                                        else ''3px solid #888'')] \<rparr>)
       (textNodes (content msg))"

definition emptyMsg :: node where
  "emptyMsg =
     Element ((createElement ''div'')
        \<lparr> style := [(''padding'', ''20px''), (''text-align'', ''center''), (''color'', ''#666''),
                      (''font-size'', ''13px''), (''font-style'', ''italic'')] \<rparr>)
       (textNodes ''No messages yet. Start a conversation below.'')"

definition conversationArea :: "conversation \<Rightarrow> node" where
  "conversationArea conv =
     Element ((createElement ''div'')
        \<lparr> className := ''conversation-area'',
           style := [(''flex'', ''1''), (''overflow-y'', ''auto''), (''padding'', ''12px''),
                      (''font-size'', ''13px''), (''line-height'', ''1.6'')] \<rparr>)
       (if messages conv \<noteq> [] then map messageBlock (messages conv) else [emptyMsg])"

definition panelHeader :: "nat \<Rightarrow> node" where
  "panelHeader i =
     (let panelTitle = Element ((createElement ''div'')
            \<lparr> style := [(''flex'', ''1''), (''font-size'', ''12px''), (''font-weight'', ''600''),
                          (''color'', ''#888'')] \<rparr>)
            (textNodes (''Panel '' @ string_of_nat i));
          expandBtn = createButton (bytes [0xC3, 0xA2, 0xE2, 0x80, 0xA0, 0xE2, 0x80, 0xA2]) Small
      in Element ((createElement ''div'')
            \<lparr> style := [(''padding'', ''8px 12px''), (''background'', ''rgba(0,0,0,0.3)''),
                          (''border-bottom'', ''1px solid rgba(255,255,255,0.1)''), (''display'', ''flex''),
                          (''align-items'', ''center''), (''gap'', ''8px''), (''flex-shrink'', ''0'')] \<rparr>)
           [panelTitle, expandBtn])"

definition inputContainer :: "conversation \<Rightarrow> nat \<Rightarrow> node" where
  "inputContainer conv i =
     (let inp = Element ((createElement ''div'')
            \<lparr> className := ''cascade-input'',
               attributes := [(''contenteditable'', ''true''), (''data-panel-index'', string_of_nat i)],
               style := [(''flex'', ''1''), (''min-height'', ''40px''), (''max-height'', ''120px''),
                          (''overflow-y'', ''auto''), (''padding'', ''10px 12px''),
                          (''background'', ''rgba(255,255,255,0.05)''),
                          (''border'', ''1px solid rgba(255,255,255,0.1)''), (''border-radius'', ''8px''),
                          (''color'', ''#e0e0e0''), (''outline'', ''none''), (''font-size'', ''13px''),
                          (''line-height'', ''1.5'')] \<rparr>)
            (textNodes (c_inputContent conv));
          sendButton = (case createButton ''Send'' Primary of
                          Element a ks \<Rightarrow>
                            Element (a\<lparr> className := ''cascade-send-button'',
                                        attributes := [(''data-panel-index'', string_of_nat i)] \<rparr>) ks
                        | t \<Rightarrow> t)
      in Element ((createElement ''div'')
            \<lparr> style := [(''padding'', ''12px''), (''background'', ''rgba(0,0,0,0.3)''),
                          (''border-top'', ''1px solid rgba(255,255,255,0.1)''), (''display'', ''flex''),
                          (''gap'', ''8px''), (''flex-shrink'', ''0'')] \<rparr>)
           [inp, sendButton])"

definition createPanel :: "conversation \<Rightarrow> nat \<Rightarrow> extraction \<Rightarrow> node" where
  "createPanel conv i ex =
     Element ((createElement ''div'')
        \<lparr> className := ''cascade-panel'',
           attributes := [(''data-index'', string_of_nat i)],
           style := [(''background'', ''rgba(0,0,0,0.2)''), (''display'', ''flex''),
                      (''flex-direction'', ''column''), (''height'', ''400px''), (''flex-shrink'', ''0'')] \<rparr>)
       [panelHeader i, conversationArea conv, inputContainer conv i]"

definition placeholder :: node where
  \<open>placeholder =
     Element ((createElement ''div'')
        \<lparr> style := [(''padding'', ''32px''), (''text-align'', ''center''), (''color'', ''#666''),
                      (''font-size'', ''14px'')] \<rparr>)
       (textNodes ''No Cascade panels found. Click "+ New" to create one.'')\<close>

text \<open>\<open>document.getElementById\<close>: the first element of the document with the id.\<close>

definition getElementById :: "string \<Rightarrow> document \<Rightarrow> node option" where
  "getElementById i d = List.find (has_id i) (documentElements d)"

definition mountStyles :: string where
  "mountStyles =
     ''#cascade-hub-ui * { box-sizing: border-box; } '' @
     ''#cascade-hub-ui ::-webkit-scrollbar { width: 8px; height: 8px; } '' @
     ''#cascade-hub-ui ::-webkit-scrollbar-track { background: rgba(0,0,0,0.2); } '' @
     ''#cascade-hub-ui ::-webkit-scrollbar-thumb { background: rgba(0,212,255,0.3); border-radius: 4px; } '' @
     ''#cascade-hub-ui ::-webkit-scrollbar-thumb:hover { background: rgba(0,212,255,0.5); } '' @
     ''.cascade-input:empty:before { content: 'Type a message...'; color: #666; }''"

definition injectStyles :: "document \<Rightarrow> document" where
  "injectStyles d =
     (case getElementById ''cascade-mount-styles'' d of
        Some e \<Rightarrow> d
      | None \<Rightarrow>
          d\<lparr> head := head d @
                [Element ((createElement ''style'')\<lparr> ident := ''cascade-mount-styles'' \<rparr>)
                   (textNodes mountStyles)] \<rparr>)"

definition createUI :: "extraction \<Rightarrow> document \<Rightarrow> customUI \<times> document" where
  "createUI ex d =
     (let toolbarEl = createToolbar ex;
          agentHubEl = createAgentHub ex;
          panelEls = map (\<lambda>(conv, i). createPanel conv i ex)
                       (zip (conversations ex) [0 ..< length (conversations ex)]);
          panelsContainer = Element ((createElement ''div'')
            \<lparr> ident := ''panels-container'',
               style := [(''flex'', ''1''), (''overflow-y'', ''auto''), (''display'', ''flex''),
                          (''flex-direction'', ''column''), (''gap'', ''1px''),
                          (''background'', ''rgba(0,0,0,0.2)'')] \<rparr>)
            (if conversations ex \<noteq> [] then panelEls else [placeholder]);
          rootEl = Element ((createElement ''div'')
            \<lparr> ident := ''cascade-hub-ui'',
               style := [(''position'', ''fixed''), (''top'', ''0''), (''right'', ''0''), (''width'', ''450px''),
                          (''height'', ''100vh''),
                          (''background'', ''linear-gradient(135deg, #1a1a2e 0%, #16213e 100%)''),
                          (''z-index'', ''999999''), (''display'', ''flex''), (''flex-direction'', ''column''),
                          (''font-family'', ''-apple-system, BlinkMacSystemFont, 'Segoe UI', sans-serif''),
                          (''color'', ''#e0e0e0''), (''box-shadow'', ''-4px 0 24px rgba(0,0,0,0.5)'')] \<rparr>)
            [toolbarEl, agentHubEl, panelsContainer]
      in (\<lparr> root = rootEl, agentHub = agentHubEl, panels = panelEls, toolbar = toolbarEl \<rparr>,
          injectStyles d))"

section \<open>Changing the document\<close>

text \<open>
  \<open>el.style.display\<close> reads the last \<open>display\<close> declaration of the inline style (the empty
  string without one); assigning it replaces the declaration, and assigning the empty string
  removes it.
\<close>

definition get_display :: "attrs \<Rightarrow> string" where
  "get_display a = (case map_of (rev (style a)) ''display'' of None \<Rightarrow> [] | Some v \<Rightarrow> v)"

definition set_display :: "string \<Rightarrow> attrs \<Rightarrow> attrs" where
  "set_display v a =
     a\<lparr> style := filter (\<lambda>kv. fst kv \<noteq> ''display'') (style a) @
                    (if v = [] then [] else [(''display'', v)]) \<rparr>"

definition styleDisplay :: "node \<Rightarrow> string" where
  "styleDisplay n = (case n of Text s \<Rightarrow> [] | Element a ks \<Rightarrow> get_display a)"

text \<open>
  \<open>querySelectorAll(sel).forEach(el => ...)\<close> with a body that changes the attributes of
  \<open>el\<close>: every element that matches is changed.
\<close>

fun update_all :: "(node \<Rightarrow> bool) \<Rightarrow> (attrs \<Rightarrow> attrs) \<Rightarrow> node \<Rightarrow> node" where
  "update_all P f (Text s) = Text s"
| "update_all P f (Element a ks) =
     Element (if P (Element a ks) then f a else a) (map (update_all P f) ks)"

text \<open>The same for the first element that matches (\<open>querySelector\<close>, \<open>getElementById\<close>).\<close>

fun update_first_node :: "(node \<Rightarrow> bool) \<Rightarrow> (attrs \<Rightarrow> attrs) \<Rightarrow> node \<Rightarrow> node option"
  and update_first_list :: "(node \<Rightarrow> bool) \<Rightarrow> (attrs \<Rightarrow> attrs) \<Rightarrow> node list \<Rightarrow> node list option" where
  "update_first_node P f (Text s) = None"
| "update_first_node P f (Element a ks) =
     (if P (Element a ks) then Some (Element (f a) ks)
      else map_option (Element a) (update_first_list P f ks))"
| "update_first_list P f [] = None"
| "update_first_list P f (k # ks) =
     (case update_first_node P f k of
        Some k' \<Rightarrow> Some (k' # ks)
      | None \<Rightarrow> map_option ((#) k) (update_first_list P f ks))"

text \<open>\<open>el.remove()\<close> for every element that matches, and for the first one.\<close>

fun prune :: "(node \<Rightarrow> bool) \<Rightarrow> node \<Rightarrow> node" where
  "prune P (Text s) = Text s"
| "prune P (Element a ks) = Element a (map (prune P) (filter (\<lambda>k. \<not> P k) ks))"

definition remove_all :: "(node \<Rightarrow> bool) \<Rightarrow> node list \<Rightarrow> node list" where
  "remove_all P ns = map (prune P) (filter (\<lambda>k. \<not> P k) ns)"

fun remove_first_node :: "(node \<Rightarrow> bool) \<Rightarrow> node \<Rightarrow> node option"
  and remove_first_list :: "(node \<Rightarrow> bool) \<Rightarrow> node list \<Rightarrow> node list option" where
  "remove_first_node P (Text s) = None"
| "remove_first_node P (Element a ks) = map_option (Element a) (remove_first_list P ks)"
| "remove_first_list P [] = None"
| "remove_first_list P (k # ks) =
     (if P k then Some ks
      else (case remove_first_node P k of
              Some k' \<Rightarrow> Some (k' # ks)
            | None \<Rightarrow> map_option ((#) k) (remove_first_list P ks)))"

definition doc_update_all :: "(node \<Rightarrow> bool) \<Rightarrow> (attrs \<Rightarrow> attrs) \<Rightarrow> document \<Rightarrow> document" where
  "doc_update_all P f d =
     d\<lparr> head := map (update_all P f) (head d), body := map (update_all P f) (body d) \<rparr>"

definition doc_update_first :: "(node \<Rightarrow> bool) \<Rightarrow> (attrs \<Rightarrow> attrs) \<Rightarrow> document \<Rightarrow> document" where
  "doc_update_first P f d =
     (case update_first_list P f (head d) of
        Some h \<Rightarrow> d\<lparr> head := h \<rparr>
      | None \<Rightarrow> (case update_first_list P f (body d) of
                   Some b \<Rightarrow> d\<lparr> body := b \<rparr>
                 | None \<Rightarrow> d))"

definition doc_remove_all :: "(node \<Rightarrow> bool) \<Rightarrow> document \<Rightarrow> document" where
  "doc_remove_all P d = d\<lparr> head := remove_all P (head d), body := remove_all P (body d) \<rparr>"

definition doc_remove_first :: "(node \<Rightarrow> bool) \<Rightarrow> document \<Rightarrow> document" where
  "doc_remove_first P d =
     (case remove_first_list P (head d) of
        Some h \<Rightarrow> d\<lparr> head := h \<rparr>
      | None \<Rightarrow> (case remove_first_list P (body d) of
                   Some b \<Rightarrow> d\<lparr> body := b \<rparr>
                 | None \<Rightarrow> d))"

section \<open>Replacement UI: mount, destroyOriginalUI, restoreOriginalUI\<close>

text \<open>
  The page holds the document, the mutation observers that are connected to it, the names
  bound on \<open>window\<close> by \<open>page.exposeFunction\<close>, and the events \<open>window\<close> has a listener for.
  An observer is known by the number it got when it was created; what its callback does on
  a mutation is not modelled. The module custom-ui.js keeps three variables:
  \<open>panelObserver\<close>, \<open>customUIRef\<close> and \<open>panelCount\<close>.
\<close>

record browser =
  doc :: document
  observers :: "nat list"
  nextObserver :: nat
  bindings :: "string list"
  listeners :: "string list"

record module =
  panelObserver :: "nat option"
  customUIRef :: "customUI option"
  panelCount :: nat

definition initial_module :: module where
  "initial_module = \<lparr> panelObserver = None, customUIRef = None, panelCount = 0 \<rparr>"

definition hub_id :: string where
  "hub_id = ''cascade-hub-ui''"

definition auxbar_id :: string where
  "auxbar_id = ''workbench.parts.auxiliarybar''"

text \<open>\<open>.tab, [role="tab"]\<close> with \<open>innerText\<close> including \<open>Cascade\<close>\<close>
definition sel_cascadeTab :: "node \<Rightarrow> bool" where
  "sel_cascadeTab n =
     ((has_class ''tab'' n \<or> has_attr ''role'' ''tab'' n) \<and> str_includes (innerText n) ''Cascade'')"

definition stopObserver :: "module \<times> browser \<Rightarrow> module \<times> browser" where
  "stopObserver s =
     (case panelObserver (fst s) of
        None \<Rightarrow> s
      | Some ob \<Rightarrow> ((fst s)\<lparr> panelObserver := None \<rparr>,
                    (snd s)\<lparr> observers := removeAll ob (observers (snd s)) \<rparr>))"

definition setCustomUIRef :: "customUI \<Rightarrow> module \<Rightarrow> module" where
  "setCustomUIRef ui m = m\<lparr> customUIRef := Some ui, panelCount := length (panels ui) \<rparr>"

text \<open>
  \<open>mount\<close>. The resize event it schedules does not change the document and is left out.
\<close>

definition mount :: "customUI \<Rightarrow> module \<times> browser \<Rightarrow> customUI \<times> (module \<times> browser)" where
  "mount ui s =
     (let b1 = (snd s)\<lparr> doc := doc_remove_all (has_id hub_id) (doc (snd s)) \<rparr>;
          s2 = stopObserver (fst s, b1);
          d3 = (doc (snd s2))\<lparr> body := body (doc (snd s2)) @ [root ui] \<rparr>
      in (ui, (setCustomUIRef ui (fst s2), (snd s2)\<lparr> doc := d3 \<rparr>)))"

text \<open>\<open>hideElement\<close>: the new attributes, and whether it returns \<open>true\<close>.\<close>

definition hideElement :: "attrs \<Rightarrow> attrs" where
  "hideElement a = (if get_display a \<noteq> ''none'' then set_display ''none'' a else a)"

definition hides :: "node \<Rightarrow> bool" where
  "hides n = (case n of Text s \<Rightarrow> False | Element a ks \<Rightarrow> get_display a \<noteq> ''none'')"

definition hiddenBy :: "(node \<Rightarrow> bool) \<Rightarrow> document \<Rightarrow> nat" where
  "hiddenBy sel d = length (filter hides (querySelectorAll sel d))"

definition destroyOriginalUI :: "module \<times> browser \<Rightarrow> nat \<times> (module \<times> browser)" where
  "destroyOriginalUI s =
     (let m = fst s; b = snd s;
          c1 = hiddenBy sel_panel (doc b);
          d1 = doc_update_all sel_panel hideElement (doc b);
          c2 = (case getElementById auxbar_id d1 of
                  None \<Rightarrow> 0
                | Some auxBar \<Rightarrow> if hides auxBar then 1 else 0);
          d2 = doc_update_first (has_id auxbar_id) hideElement d1;
          c3 = hiddenBy sel_cascadeTab d2;
          d3 = doc_update_all sel_cascadeTab hideElement d2
      in (c1 + c2 + c3,
          (case panelObserver m of
             Some ob \<Rightarrow> (m, b\<lparr> doc := d3 \<rparr>)
           | None \<Rightarrow> (m\<lparr> panelObserver := Some (nextObserver b) \<rparr>,
                      b\<lparr> doc := d3,
                         observers := observers b @ [nextObserver b],
                         nextObserver := Suc (nextObserver b) \<rparr>))))"

definition restoreOriginalUI :: "module \<times> browser \<Rightarrow> module \<times> browser" where
  "restoreOriginalUI s =
     (let s1 = stopObserver s;
          d1 = doc_update_all sel_panel (set_display []) (doc (snd s1));
          d2 = doc_update_first (has_id auxbar_id) (set_display []) d1;
          d3 = doc_remove_first (has_id hub_id) d2
      in (fst s1, (snd s1)\<lparr> doc := d3 \<rparr>))"

section \<open>Controller: mountCustomUI and restoreUI\<close>

text \<open>
  The controller keeps the connection (\<open>page\<close>, here whether it is set) and the result of
  the last mount in \<open>mountedUI\<close>.
\<close>

record mount_result =
  success :: bool
  extractedPanels :: nat
  extractedConversations :: nat
  handlersExtracted :: nat
  wired :: nat
  destroyed :: nat
  mounted :: bool

record controller =
  connected :: bool
  mountedUI :: "mount_result option"

record restore_result =
  restored :: bool
  restore_error :: "string option"

text \<open>
  \<open>setupEventBridges\<close> exposes two functions to the page and adds three listeners to
  \<open>window\<close>. \<open>page.exposeFunction\<close> (puppeteer) rejects when the name is already bound
  on the page; a name once bound stays bound.
\<close>

definition exposeFunction :: "string \<Rightarrow> browser \<Rightarrow> string + browser" where
  "exposeFunction name b =
     (if name \<in> set (bindings b)
      then Inl (''Failed to add page binding with name '' @ name @ '': window['' @ [CHR 0x27] @ name @
                [CHR 0x27] @ ''] already exists!'')
      else Inr (b\<lparr> bindings := bindings b @ [name] \<rparr>))"

definition setupEventBridges :: "browser \<Rightarrow> string option \<times> browser" where
  "setupEventBridges b =
     (case exposeFunction ''cascadeSendMessage'' b of
        Inl e \<Rightarrow> (Some e, b)
      | Inr b1 \<Rightarrow>
          (case exposeFunction ''cascadeSpawnPanel'' b1 of
             Inl e \<Rightarrow> (Some e, b1)
           | Inr b2 \<Rightarrow>
               (None, b2\<lparr> listeners := listeners b2 @
                              [''cascade-send'', ''cascade-spawn-panel'', ''cascade-agent-toggle''] \<rparr>)))"

text \<open>
  \<open>mountCustomUI\<close> evaluates the source of both modules in the page on every call
  (\<open>runModule\<close>), so the variables of custom-ui.js start from their initial values each
  time, and the module of an earlier call is out of reach. The snapshot of \<open>extract()\<close> is
  a parameter. \<open>wireHandlers\<close> looks for the properties \<open>input\<close> and \<open>sendButton\<close> on the
  panel elements of the replacement UI, which have none, and wires nothing. None of the
  steps in the page throws, so the evaluation reports success.

  The call returns the result, or throws: before anything is done when the controller is
  not connected, and after the page and \<open>mountedUI\<close> have been changed when
  \<open>setupEventBridges\<close> rejects. The state after the call is returned in both cases.
\<close>

definition mountCustomUI ::
  "extraction \<Rightarrow> controller \<times> browser \<Rightarrow> (string + mount_result) \<times> (controller \<times> browser)" where
  "mountCustomUI ex s =
     (if \<not> connected (fst s) then (Inl ''Not connected. Call connect() first.'', s)
      else
        (let created = createUI ex (doc (snd s));
             s1 = snd (mount (fst created) (initial_module, (snd s)\<lparr> doc := snd created \<rparr>));
             s2 = destroyOriginalUI s1;
             result = \<lparr> success = True,
                        extractedPanels = length (snap_panels ex),
                        extractedConversations = length (conversations ex),
                        handlersExtracted = length (handlers ex),
                        wired = 0,
                        destroyed = fst s2,
                        mounted = (getElementById hub_id (doc (snd (snd s2))) \<noteq> None) \<rparr>;
             bridged = setupEventBridges (snd (snd s2))
         in ((case fst bridged of Some e \<Rightarrow> Inl e | None \<Rightarrow> Inr result),
             ((fst s)\<lparr> mountedUI := Some result \<rparr>, snd bridged))))"

definition restoreUI :: "controller \<times> browser \<Rightarrow> restore_result \<times> (controller \<times> browser)" where
  "restoreUI s =
     (if \<not> connected (fst s) \<or> mountedUI (fst s) = None
      then (\<lparr> restored = False, restore_error = Some ''UI not mounted'' \<rparr>, s)
      else
        (let d1 = doc_remove_first (has_id hub_id) (doc (snd s));
             d2 = doc_update_all sel_panel (set_display []) d1;
             d3 = doc_update_first (has_class ''sidebar'') (set_display []) d2
         in (\<lparr> restored = True, restore_error = None \<rparr>,
             ((fst s)\<lparr> mountedUI := None \<rparr>, (snd s)\<lparr> doc := d3 \<rparr>))))"

section \<open>Notions used to state the properties\<close>

text \<open>
  The texts read by the successive polls of \<open>getResponse\<close>, in order: the recursion is the
  one of the loop itself.
\<close>

function polled :: "'h host \<Rightarrow> int \<Rightarrow> int \<Rightarrow> int \<Rightarrow> 'h world \<Rightarrow> string \<Rightarrow> string list" where
  "polled H idx startTime waitMs w lastContent =
     (if clock w - startTime < waitMs then
        readTranscript (page H w) idx #
        (if readTranscript (page H w) idx \<noteq> lastContent
         then polled H idx startTime waitMs (sleep H 500 w) (readTranscript (page H w) idx)
         else if readTranscript (page H w) idx \<noteq> [] then []
         else polled H idx startTime waitMs (sleep H 200 w) lastContent)
      else [])"
  by pat_completeness auto
termination
  by (relation "measure (\<lambda>(H, idx, startTime, waitMs, w, lastContent).
                  nat (waitMs - (clock w - startTime)))")
     (auto simp: sleep_def)

declare polled.simps [simp del]

text \<open>
  Quiet stability is reached in a sequence of reads when some read gives a text that is not
  empty and equal to the read before it (\<open>prev\<close> is the text before the first read).
\<close>

fun quiet :: "string \<Rightarrow> string list \<Rightarrow> bool" where
  "quiet prev [] = False"
| "quiet prev (c # cs) = ((c = prev \<and> c \<noteq> []) \<or> quiet c cs)"

definition childNodes :: "node \<Rightarrow> node list" where
  "childNodes n = (case n of Text s \<Rightarrow> [] | Element a ks \<Rightarrow> ks)"

text \<open>The attributes of the elements of a forest, in document order.\<close>

fun attrs_of :: "node \<Rightarrow> attrs list" where
  "attrs_of (Text s) = []"
| "attrs_of (Element a ks) = a # concat (map attrs_of ks)"

definition attrs_list :: "node list \<Rightarrow> attrs list" where
  "attrs_list ns = concat (map attrs_of ns)"

definition document_attrs :: "document \<Rightarrow> attrs list" where
  "document_attrs d = attrs_list (head d) @ attrs_list (body d)"

text \<open>The module has no watcher of its own connected besides the one \<open>panelObserver\<close> holds.\<close>

definition watcher_tracked :: "module \<times> browser \<Rightarrow> bool" where
  "watcher_tracked s =
     (observers (snd s) = (case panelObserver (fst s) of None \<Rightarrow> [] | Some ob \<Rightarrow> [ob]))"

text \<open>A selector that reads the attributes of an element only.\<close>

definition attr_sel :: "(attrs \<Rightarrow> bool) \<Rightarrow> (node \<Rightarrow> bool) \<Rightarrow> bool" where
  "attr_sel PA P = ((\<forall>a ks. P (Element a ks) = PA a) \<and> (\<forall>s. \<not> P (Text s)))"

text \<open>The replacement roots in the document of the page.\<close>

definition replacementRoots :: "browser \<Rightarrow> node list" where
  "replacementRoots b = querySelectorAll (has_id hub_id) (doc b)"






text \<open>The snapshot with the raw markup of every conversation and message replaced.\<close>

definition replace_markup :: "(conversation \<Rightarrow> string) \<Rightarrow> (message \<Rightarrow> string) \<Rightarrow> extraction \<Rightarrow> extraction" where
  "replace_markup F G ex =
     ex\<lparr> conversations :=
           map (\<lambda>c. c\<lparr> fullHTML := F c, messages := map (\<lambda>m. m\<lparr> html := G m \<rparr>) (messages c) \<rparr>)
             (conversations ex) \<rparr>"

text \<open>The elements \<open>destroyOriginalUI\<close> hides: panels, the auxiliary bar and Cascade tabs.\<close>

definition sel_hiddenByMount :: "node \<Rightarrow> bool" where
  "sel_hiddenByMount n = (sel_panel n \<or> has_id auxbar_id n \<or> sel_cascadeTab n)"

section \<open>Example documents and hosts\<close>

definition exampleInput :: "string \<Rightarrow> node" where
  "exampleInput t =
     Element ((createElement ''div'')\<lparr> attributes := [(''contenteditable'', ''true'')] \<rparr>) (textNodes t)"

definition exampleButton :: node where
  "exampleButton =
     Element ((createElement ''button'')\<lparr> className := ''rounded-full bg-blue'' \<rparr>) []"

definition exampleTranscript :: "string \<Rightarrow> node" where
  "exampleTranscript t =
     Element ((createElement ''div'')\<lparr> className := ''cascade-scrollbar'' \<rparr>) (textNodes t)"

definition examplePanel :: "node list \<Rightarrow> node" where
  "examplePanel ks =
     Element ((createElement ''div'')
        \<lparr> className := ''flex chat-client-root'', rectWidth := 300, rectHeight := 500 \<rparr>) ks"

definition exampleTab :: node where
  "exampleTab = Element ((createElement ''div'')\<lparr> className := ''tab'' \<rparr>) (textNodes ''Cascade'')"

definition exampleAuxBar :: "node list \<Rightarrow> node" where
  "exampleAuxBar ks = Element ((createElement ''div'')\<lparr> ident := auxbar_id \<rparr>) ks"

text \<open>
  A tab labelled Cascade and the auxiliary bar with two panels: the first with a transcript,
  a compose surface holding a draft and an enabled submit control, the second with an empty
  compose surface only.
\<close>

definition exampleDocument :: document where
  "exampleDocument =
     \<lparr> head = [],
       body = [exampleTab,
               exampleAuxBar
                 [examplePanel [exampleTranscript ''Hello'', exampleInput ''draft'', exampleButton],
                  examplePanel [exampleInput []]]] \<rparr>"

text \<open>A host whose document never changes and whose compose surfaces never take the focus.\<close>

definition frozenHost :: "document host" where
  "frozenHost = \<lparr> view = (\<lambda>d. d), elapse = (\<lambda>ms d. d), cdp = (\<lambda>c d. d),
                   focusInput = (\<lambda>i d. d), isFocused = (\<lambda>i d. False), clickSubmit = (\<lambda>i d. d) \<rparr>"

text \<open>
  Hosts whose state is the time passed, in milliseconds: one that types a reply, changing the
  transcript after 100 ms and after 300 ms, and one whose transcript shows the time and so
  changes at every read.
\<close>

definition transcriptDocument :: "string \<Rightarrow> document" where
  "transcriptDocument t =
     \<lparr> head = [], body = [examplePanel [exampleTranscript t, exampleInput [], exampleButton]] \<rparr>"

definition typingHost :: "nat host" where
  "typingHost =
     \<lparr> view = (\<lambda>t. transcriptDocument (if t < 100 then [] else if t < 300 then ''Hel'' else ''Hello'')),
       elapse = (\<lambda>ms t. t + ms), cdp = (\<lambda>c t. t),
       focusInput = (\<lambda>i t. t), isFocused = (\<lambda>i t. True), clickSubmit = (\<lambda>i t. t) \<rparr>"

definition countingHost :: "nat host" where
  "countingHost =
     \<lparr> view = (\<lambda>t. transcriptDocument (string_of_nat t)),
       elapse = (\<lambda>ms t. t + ms), cdp = (\<lambda>c t. t),
       focusInput = (\<lambda>i t. t), isFocused = (\<lambda>i t. True), clickSubmit = (\<lambda>i t. t) \<rparr>"





definition startWorld :: "'h \<Rightarrow> 'h world" where
  "startWorld a = \<lparr> clock = 0, app = a, dispatched = [] \<rparr>"

text \<open>A snapshot with one conversation of two messages, the second holding markup.\<close>

definition exampleExtraction :: extraction where
  "exampleExtraction =
     \<lparr> snap_panels = [],
       handlers = [],
       conversations =
         [\<lparr> c_index = 0,
            messages =
              [\<lparr> role = ''user'', content = ''hi'', html = ''<p>hi</p>'', timestamp = 0 \<rparr>,
               \<lparr> role = ''assistant'', content = ''<img src=x onerror=alert(1)>'',
                 html = ''<b>hello</b>'', timestamp = 0 \<rparr>],
            fullText = ''hi hello'', fullHTML = ''<div><p>hi</p><b>hello</b></div>'',
            c_inputContent = ''draft'' \<rparr>] \<rparr>"

definition exampleBrowser :: browser where
  "exampleBrowser = \<lparr> doc = exampleDocument, observers = [], nextObserver = 0,
                       bindings = [], listeners = [] \<rparr>"

definition exampleController :: controller where
  "exampleController = \<lparr> connected = True, mountedUI = None \<rparr>"

text \<open>
  The snapshot \<open>extract()\<close> takes of the example document: its two panels, the handler groups
  of the two compose surfaces and of the submit control, and two conversations without
  message elements.
\<close>

definition exampleSnapshot :: extraction where
  "exampleSnapshot =
     \<lparr> snap_panels = querySelectorAll sel_panel exampleDocument,
       handlers = [''panel_0_input'', ''panel_0_send'', ''panel_1_input''],
       conversations =
         [\<lparr> c_index = 0, messages = [], fullText = ''Hello'', fullHTML = ''Hello'',
            c_inputContent = ''draft'' \<rparr>,
          \<lparr> c_index = 1, messages = [], fullText = [], fullHTML = [], c_inputContent = [] \<rparr>] \<rparr>"

text \<open>
  The example page after the takeover was mounted on it, after it was mounted a second
  time, and after \<open>restoreUI\<close>.
\<close>

definition mountedExample :: "controller \<times> browser" where
  "mountedExample = snd (mountCustomUI exampleSnapshot (exampleController, exampleBrowser))"

definition remountedExample :: "controller \<times> browser" where
  "remountedExample = snd (mountCustomUI exampleSnapshot mountedExample)"

definition restoredExample :: "controller \<times> browser" where
  "restoredExample = snd (restoreUI mountedExample)"

section \<open>The example documents and hosts evaluated\<close>

lemmas selector_defs =
  querySelectorAll_def querySelector_def documentElements_def elements_def descendants_def
  has_class_def has_attr_def has_tag_def has_id_def sel_panel_def sel_input_def sel_button_def
  sel_button_enabled_def sel_scrollArea_def classList_def is_space_def at_index_def

lemmas example_defs =
  exampleDocument_def examplePanel_def exampleInput_def exampleButton_def exampleTranscript_def
  exampleTab_def exampleAuxBar_def transcriptDocument_def createElement_def textNodes_def

lemma example_panels:
  "querySelectorAll sel_panel exampleDocument =
     [examplePanel [exampleTranscript ''Hello'', exampleInput ''draft'', exampleButton],
      examplePanel [exampleInput []]]"
  by (simp add: selector_defs example_defs)

lemma example_panel0:
  "rect_visible (examplePanel ks)"
  "input_text (examplePanel [exampleTranscript ''Hello'', exampleInput ''draft'', exampleButton]) = ''draft''"
  "button_enabled (examplePanel [exampleTranscript ''Hello'', exampleInput ''draft'', exampleButton])"
  "querySelector sel_input (examplePanel [exampleTranscript ''Hello'', exampleInput ''draft'', exampleButton])
     = Some (exampleInput ''draft'')"
  "querySelector sel_button_enabled (examplePanel [exampleTranscript ''Hello'', exampleInput ''draft'', exampleButton])
     = Some exampleButton"
  by (simp_all add: rect_visible_def input_text_def button_enabled_def the_attrs_def selector_defs example_defs)

lemma example_panel1:
  "input_text (examplePanel [exampleInput []]) = []"
  "querySelector sel_button (examplePanel [exampleInput []]) = None"
  "querySelector sel_scrollArea (examplePanel [exampleInput []]) = None"
  by (simp_all add: input_text_def selector_defs example_defs)

lemma transcript_panels:
  "readTranscript (transcriptDocument t) 0 = t"
  by (simp add: readTranscript_def selector_defs example_defs)


lemma frozenHost_simps:
  "page frozenHost w = app w"
  "app (sleep frozenHost ms w) = app w"
  "app (cdpSend frozenHost c w) = app w"
  "isFocused frozenHost i a = False"
  "focusInput frozenHost i a = a"
  "clickSubmit frozenHost i a = a"
  by (simp_all add: page_def sleep_def cdpSend_def frozenHost_def)

lemma clock_sleep: "clock (sleep H ms w) = clock w + int ms"
  by (simp add: sleep_def)

lemma dispatched_sleep: "dispatched (sleep H ms w) = dispatched w"
  by (simp add: sleep_def)

lemma dispatched_cdpSend: "dispatched (cdpSend H c w) = dispatched w @ [c]"
  by (simp add: cdpSend_def)

lemma length_dispatched_clearInput:
  "length (dispatched (clearInput H w)) = length (dispatched w) + 6"
  by (simp add: clearInput_def Let_def dispatched_sleep dispatched_cdpSend)

lemma length_dispatched_typeMessage:
  "length (dispatched (typeMessage H m w)) = length (dispatched w) + length m"
  by (induction m arbitrary: w) (simp_all add: dispatched_sleep dispatched_cdpSend)

lemma app_clearInput_frozen: "app (clearInput frozenHost w) = app w"
  by (simp add: clearInput_def Let_def frozenHost_simps)

lemma app_typeMessage_frozen: "app (typeMessage frozenHost m w) = app w"
  by (induction m arbitrary: w) (simp_all add: frozenHost_simps)

section \<open>Properties of the Panel Locator\<close>

lemma zip_upt_map:
  "map (\<lambda>(x, i). f x i) (zip xs [0 ..< length xs]) = map (\<lambda>i. f (xs ! i) i) [0 ..< length xs]"
  by (rule nth_equalityI) simp_all

text \<open>
  Claim C8. For a document with \<open>n\<close> conversation containers, \<open>listPanels\<close> returns \<open>n\<close>
  entries, their \<open>index\<close> fields are \<open>0, ..., n - 1\<close>, and the entry at position \<open>i\<close>
  describes the \<open>i\<close>-th container in document order; with no container the result is empty.
  \<open>listPanels\<close> is a total function: it has no failing case.
\<close>

theorem listPanels_indices:
  "length (listPanels d) = length (querySelectorAll sel_panel d)
   \<and> map index (listPanels d) = map int [0 ..< length (querySelectorAll sel_panel d)]
   \<and> listPanels d =
       map (\<lambda>i. panel_entry (querySelectorAll sel_panel d ! i) i)
         [0 ..< length (querySelectorAll sel_panel d)]"
  by (simp add: listPanels_def Let_def zip_upt_map panel_entry_def)

text \<open>
  On the example document: two entries, indexed 0 and 1, in the order of the two panels.
\<close>

theorem listPanels_indices_witness:
  "length (listPanels exampleDocument) = 2
   \<and> map index (listPanels exampleDocument) = [0, 1]
   \<and> map inputContent (listPanels exampleDocument) = [''draft'', []]"
proof -
  have u: "[0 ..< 2] = [0, Suc 0]" by code_simp
  from listPanels_indices[of exampleDocument]
  have "listPanels exampleDocument =
          [panel_entry (examplePanel [exampleTranscript ''Hello'', exampleInput ''draft'', exampleButton]) 0,
           panel_entry (examplePanel [exampleInput []]) (Suc 0)]"
    by (simp add: example_panels u)
  then show ?thesis
    by (simp add: panel_entry_def example_panel0 example_panel1)
qed

text \<open>
  Claim C7. For an index outside the range of the panels, \<open>getPanelState\<close> returns the record
  with the error text and \<open>totalPanels\<close>; for an index in the range it returns the state of
  that panel (\<open>index\<close>, \<open>visible\<close>, \<open>inputContent\<close>, \<open>buttonEnabled\<close>) with
  \<open>totalPanels\<close>. Both are values of the result type: no case raises.
\<close>

theorem getPanelState_contract:
  "getPanelState d idx =
     (if 0 \<le> idx \<and> idx < panelCount_of d
      then PanelFound
             \<lparr> index = idx,
               visible = rect_visible (querySelectorAll sel_panel d ! nat idx),
               inputContent = input_text (querySelectorAll sel_panel d ! nat idx),
               buttonEnabled = button_enabled (querySelectorAll sel_panel d ! nat idx),
               totalPanels = panelCount_of d \<rparr>
      else PanelNotFound (''Panel '' @ string_of_int idx @ '' not found'') (panelCount_of d))"
  by (simp add: getPanelState_def Let_def at_index_def panelCount_of_def)

text \<open>
  On the example document: the indices 7 and -1 are out of range, the index 0 is in range.
\<close>

theorem getPanelState_contract_witness:
  "getPanelState exampleDocument 7 = PanelNotFound ''Panel 7 not found'' 2
   \<and> getPanelState exampleDocument (- 1) = PanelNotFound ''Panel -1 not found'' 2
   \<and> getPanelState exampleDocument 0 =
       PanelFound \<lparr> index = 0, visible = True, inputContent = ''draft'', buttonEnabled = True,
                    totalPanels = 2 \<rparr>"
proof -
  have n: "panelCount_of exampleDocument = 2"
    by (simp add: panelCount_of_def example_panels)
  have s7: "string_of_int 7 = ''7''" and s1: "string_of_int (- 1) = ''-1''" by code_simp+
  show ?thesis
    using getPanelState_contract[of exampleDocument 7] getPanelState_contract[of exampleDocument "- 1"]
      getPanelState_contract[of exampleDocument 0]
    by (simp add: n s7 s1 example_panels example_panel0)
qed

text \<open>
  Claim C10. For a panel without a submit control, \<open>getPanelState\<close> and \<open>listPanels\<close> both
  report \<open>buttonEnabled = false\<close>.
\<close>

theorem absent_button_disabled:
  assumes "at_index (querySelectorAll sel_panel d) idx = Some panel"
      and "querySelector sel_button panel = None"
  shows "(\<exists>st. getPanelState d idx = PanelFound st \<and> \<not> buttonEnabled st)
         \<and> \<not> buttonEnabled (listPanels d ! nat idx)"
proof -
  from assms(1) have r: "0 \<le> idx" "nat idx < length (querySelectorAll sel_panel d)"
    and p: "querySelectorAll sel_panel d ! nat idx = panel"
    by (auto simp: at_index_def split: if_splits)
  from assms(2) have b: "\<not> button_enabled panel" by (simp add: button_enabled_def)
  have "getPanelState d idx = PanelFound \<lparr> index = idx, visible = rect_visible panel,
          inputContent = input_text panel, buttonEnabled = button_enabled panel,
          totalPanels = int (length (querySelectorAll sel_panel d)) \<rparr>"
    using assms(1) by (simp add: getPanelState_def Let_def)
  moreover have "listPanels d ! nat idx = panel_entry panel (nat idx)"
    using r(2) p by (simp add: listPanels_def Let_def)
  ultimately show ?thesis using b by (simp add: panel_entry_def)
qed

text \<open>
  The second panel of the example document has no submit control.
\<close>

theorem absent_button_disabled_witness:
  "(\<exists>st. getPanelState exampleDocument 1 = PanelFound st \<and> \<not> buttonEnabled st)
   \<and> \<not> buttonEnabled (listPanels exampleDocument ! nat 1)"
proof -
  have h1: "at_index (querySelectorAll sel_panel exampleDocument) 1 = Some (examplePanel [exampleInput []])"
    by (simp add: example_panels at_index_def)
  have h2: "querySelector sel_button (examplePanel [exampleInput []]) = None"
    by (rule example_panel1)
  from absent_button_disabled[OF h1 h2] show ?thesis .
qed

section \<open>Properties of spawnCascade\<close>













section \<open>Properties of send\<close>

lemma send_locate_failure:
  assumes "fst (focusPanel H idx w) = FocusError e"
  shows "send H idx message options w = (SendError e, w)"
  using assms
  by (auto simp: send_def focusPanel_def Let_def split: option.splits prod.splits focus_result.splits)

lemma send_not_submitted:
  assumes "fst (send H idx message options w) \<noteq> Sent message"
  shows "(\<exists>e. fst (send H idx message options w) = SendError e)
       \<or> (\<exists>b c. fst (send H idx message options w) = NotSent b c \<and> (submit options \<longrightarrow> b \<noteq> Some True))"
  using assms
  by (auto simp: send_def Let_def split: option.splits prod.splits focus_result.splits if_splits)

text \<open>
  Claim C6, at an input where the focus is not established. The first evaluation of \<open>send\<close>
  finds the panel and its compose surface and reports \<open>focused: false\<close>; \<open>send\<close> does not
  read that field: it sends the eight input commands (select all, delete, two characters)
  and, the submit control being enabled, returns \<open>{ sent: true, message }\<close>.
\<close>

theorem send_ignores_focus_check:
  "fst (focusPanel frozenHost 0 (startWorld exampleDocument)) = Focus False 0
   \<and> fst (send frozenHost 0 ''hi'' default_options (startWorld exampleDocument)) = Sent ''hi''
   \<and> length (dispatched (snd (send frozenHost 0 ''hi'' default_options (startWorld exampleDocument)))) = 8"
proof -
  let ?w = "startWorld exampleDocument"
  have f: "focusPanel frozenHost 0 ?w = (Focus False 0, ?w)"
    by (simp add: focusPanel_def Let_def frozenHost_simps startWorld_def example_panels
                  at_index_def example_panel0)
  have st: "getPanelState exampleDocument 0 =
      PanelFound \<lparr> index = 0, visible = True, inputContent = ''draft'', buttonEnabled = True,
                   totalPanels = 2 \<rparr>"
    by (simp add: getPanelState_def Let_def example_panels at_index_def example_panel0)
  have a: "app ?w = exampleDocument" "dispatched ?w = []" "clear default_options" "submit default_options"
    by (simp_all add: startWorld_def default_options_def)
  have c: "clickSend frozenHost 0 w = w" for w :: "document world"
    by (simp add: clickSend_def frozenHost_simps split: option.splits)
  show ?thesis
    by (simp add: f send_def Let_def a c st state_buttonEnabled_def frozenHost_simps
                  app_clearInput_frozen app_typeMessage_frozen dispatched_sleep dispatched_cdpSend
                  length_dispatched_clearInput)
qed

section \<open>Properties of getResponse\<close>

lemma loop_unfold_changed:
  assumes "clock w - startTime < waitMs" and "readTranscript (page H w) idx \<noteq> lastContent"
  shows "getResponse_loop H idx startTime waitMs w lastContent =
         getResponse_loop H idx startTime waitMs (sleep H 500 w) (readTranscript (page H w) idx)"
      (is "_ = ?L")
    and "polled H idx startTime waitMs w lastContent =
         readTranscript (page H w) idx #
         polled H idx startTime waitMs (sleep H 500 w) (readTranscript (page H w) idx)"
      (is "_ = ?R")
proof -
  show "getResponse_loop H idx startTime waitMs w lastContent = ?L"
    by (subst getResponse_loop.simps) (use assms in simp)
  show "polled H idx startTime waitMs w lastContent = ?R"
    by (subst polled.simps) (use assms in simp)
qed

lemma loop_unfold_empty:
  assumes "clock w - startTime < waitMs" and "readTranscript (page H w) idx = lastContent"
    and "lastContent = []"
  shows "getResponse_loop H idx startTime waitMs w lastContent =
         getResponse_loop H idx startTime waitMs (sleep H 200 w) lastContent"
      (is "_ = ?L")
    and "polled H idx startTime waitMs w lastContent =
         [] # polled H idx startTime waitMs (sleep H 200 w) lastContent"
      (is "_ = ?R")
proof -
  show "getResponse_loop H idx startTime waitMs w lastContent = ?L"
    by (subst getResponse_loop.simps) (use assms in simp)
  show "polled H idx startTime waitMs w lastContent = ?R"
    by (subst polled.simps) (use assms in simp)
qed

lemma loop_unfold_stable:
  assumes "clock w - startTime < waitMs" and "readTranscript (page H w) idx = lastContent"
    and "lastContent \<noteq> []"
  shows "getResponse_loop H idx startTime waitMs w lastContent =
         (\<lparr> response = lastContent, stable = True, timeout = False \<rparr>, w)"
      (is "_ = ?L")
    and "polled H idx startTime waitMs w lastContent = [lastContent]"
      (is "_ = ?R")
proof -
  show "getResponse_loop H idx startTime waitMs w lastContent = ?L"
    by (subst getResponse_loop.simps) (use assms in simp)
  show "polled H idx startTime waitMs w lastContent = ?R"
    by (subst polled.simps) (use assms in simp)
qed

lemma loop_unfold_timeout:
  assumes "\<not> clock w - startTime < waitMs"
  shows "getResponse_loop H idx startTime waitMs w lastContent =
         (\<lparr> response = lastContent, stable = False, timeout = True \<rparr>, w)"
      (is "_ = ?L")
    and "polled H idx startTime waitMs w lastContent = []"
      (is "_ = ?R")
proof -
  show "getResponse_loop H idx startTime waitMs w lastContent = ?L"
    by (subst getResponse_loop.simps) (use assms in simp)
  show "polled H idx startTime waitMs w lastContent = ?R"
    by (subst polled.simps) (use assms in simp)
qed

lemma loop_timeout:
  "\<not> quiet lastContent (polled H idx startTime waitMs w lastContent) \<Longrightarrow>
   fst (getResponse_loop H idx startTime waitMs w lastContent) =
     \<lparr> response = last (lastContent # polled H idx startTime waitMs w lastContent),
       stable = False, timeout = True \<rparr>
   \<and> waitMs \<le> clock (snd (getResponse_loop H idx startTime waitMs w lastContent)) - startTime"
proof (induction H idx startTime waitMs w lastContent rule: getResponse_loop.induct)
  case (1 H idx startTime waitMs w lastContent)
  show ?case
  proof (cases "clock w - startTime < waitMs")
    case False
    then show ?thesis by (simp add: loop_unfold_timeout)
  next
    case inb: True
    show ?thesis
    proof (cases "readTranscript (page H w) idx = lastContent")
      case False
      note u = loop_unfold_changed[OF inb False]
      from "1.prems" have "\<not> quiet (readTranscript (page H w) idx)
          (polled H idx startTime waitMs (sleep H 500 w) (readTranscript (page H w) idx))"
        by (simp add: u)
      from "1.IH"(1)[OF inb False this] show ?thesis by (simp add: u)
    next
      case same: True
      show ?thesis
      proof (cases "lastContent = []")
        case True
        note u = loop_unfold_empty[OF inb same True]
        have nq: "\<not> quiet lastContent (polled H idx startTime waitMs (sleep H 200 w) lastContent)"
          using "1.prems" True unfolding u(2) by simp
        from same True have "\<not> readTranscript (page H w) idx \<noteq> lastContent"
          "\<not> readTranscript (page H w) idx \<noteq> []" by simp_all
        from "1.IH"(2)[OF inb this nq] have ih: "fst (getResponse_loop H idx startTime waitMs (sleep H 200 w) lastContent) =
            \<lparr> response = last (lastContent # polled H idx startTime waitMs (sleep H 200 w) lastContent),
              stable = False, timeout = True \<rparr>
          \<and> waitMs \<le> clock (snd (getResponse_loop H idx startTime waitMs (sleep H 200 w) lastContent)) - startTime" .
        show ?thesis unfolding u using ih True by simp
      next
        case False
        from "1.prems" loop_unfold_stable(2)[OF inb same False] False show ?thesis by simp
      qed
    qed
  qed
qed

lemma loop_stable:
  "quiet lastContent (polled H idx startTime waitMs w lastContent) \<Longrightarrow>
   fst (getResponse_loop H idx startTime waitMs w lastContent) =
     \<lparr> response = last (polled H idx startTime waitMs w lastContent),
       stable = True, timeout = False \<rparr>
   \<and> last (polled H idx startTime waitMs w lastContent) \<noteq> []"
proof (induction H idx startTime waitMs w lastContent rule: getResponse_loop.induct)
  case (1 H idx startTime waitMs w lastContent)
  show ?case
  proof (cases "clock w - startTime < waitMs")
    case False
    with "1.prems" show ?thesis by (simp add: loop_unfold_timeout)
  next
    case inb: True
    show ?thesis
    proof (cases "readTranscript (page H w) idx = lastContent")
      case False
      note u = loop_unfold_changed[OF inb False]
      from "1.prems" False have q: "quiet (readTranscript (page H w) idx)
          (polled H idx startTime waitMs (sleep H 500 w) (readTranscript (page H w) idx))"
        by (simp add: u)
      then have "polled H idx startTime waitMs (sleep H 500 w) (readTranscript (page H w) idx) \<noteq> []"
        by auto
      with "1.IH"(1)[OF inb False q] show ?thesis by (simp add: u)
    next
      case same: True
      show ?thesis
      proof (cases "lastContent = []")
        case True
        note u = loop_unfold_empty[OF inb same True]
        have q: "quiet lastContent (polled H idx startTime waitMs (sleep H 200 w) lastContent)"
          using "1.prems" True unfolding u(2) by simp
        then have ne: "polled H idx startTime waitMs (sleep H 200 w) lastContent \<noteq> []" by auto
        from same True have "\<not> readTranscript (page H w) idx \<noteq> lastContent"
          "\<not> readTranscript (page H w) idx \<noteq> []" by simp_all
        from "1.IH"(2)[OF inb this q] have ih: "fst (getResponse_loop H idx startTime waitMs (sleep H 200 w) lastContent) =
            \<lparr> response = last (polled H idx startTime waitMs (sleep H 200 w) lastContent),
              stable = True, timeout = False \<rparr>
          \<and> last (polled H idx startTime waitMs (sleep H 200 w) lastContent) \<noteq> []" .
        show ?thesis unfolding u using ih ne by simp
      next
        case False
        from loop_unfold_stable[OF inb same False] False show ?thesis by simp
      qed
    qed
  qed
qed

text \<open>
  A result marked stable never holds an empty text, and is never marked as a timeout: an
  empty transcript is never returned as stable.
\<close>

lemma loop_stable_nonempty:
  "stable (fst (getResponse_loop H idx startTime waitMs w lastContent)) \<longrightarrow>
   response (fst (getResponse_loop H idx startTime waitMs w lastContent)) \<noteq> []
   \<and> \<not> timeout (fst (getResponse_loop H idx startTime waitMs w lastContent))"
proof (induction H idx startTime waitMs w lastContent rule: getResponse_loop.induct)
  case (1 H idx startTime waitMs w lastContent)
  show ?case
  proof (cases "clock w - startTime < waitMs")
    case False
    then show ?thesis by (simp add: loop_unfold_timeout)
  next
    case inb: True
    show ?thesis
    proof (cases "readTranscript (page H w) idx = lastContent")
      case False
      note u = loop_unfold_changed[OF inb False]
      from "1.IH"(1)[OF inb False] show ?thesis unfolding u(1) .
    next
      case same: True
      show ?thesis
      proof (cases "lastContent = []")
        case True
        note u = loop_unfold_empty[OF inb same True]
        from same True have e: "\<not> readTranscript (page H w) idx \<noteq> lastContent"
          "\<not> readTranscript (page H w) idx \<noteq> []" by simp_all
        from "1.IH"(2)[OF inb e] show ?thesis unfolding u(1) .
      next
        case False
        note u = loop_unfold_stable[OF inb same False]
        from False show ?thesis unfolding u(1) by simp
      qed
    qed
  qed
qed

lemma getResponse_stable_nonempty:
  "stable (fst (getResponse H idx waitMs w)) \<longrightarrow>
   response (fst (getResponse H idx waitMs w)) \<noteq> [] \<and> \<not> timeout (fst (getResponse H idx waitMs w))"
  unfolding getResponse_def by (rule loop_stable_nonempty)

text \<open>
  Claim C4, amended. At any poll made before the timeout: when the text read has changed to
  a text \<open>c\<close> that is not empty, and the poll 500 ms later, still before the timeout, reads
  \<open>c\<close> again, \<open>getResponse\<close> returns \<open>c\<close> marked stable at that second poll.
\<close>

theorem getResponse_stable_after_quiet:
  assumes "clock w - startTime < waitMs"
      and "readTranscript (page H w) idx = c" and "c \<noteq> lastContent" and "c \<noteq> []"
      and "clock w + 500 - startTime < waitMs"
      and "readTranscript (page H (sleep H 500 w)) idx = c"
  shows "getResponse_loop H idx startTime waitMs w lastContent =
           (\<lparr> response = c, stable = True, timeout = False \<rparr>, sleep H 500 w)"
proof -
  from assms(2,3) have ch: "readTranscript (page H w) idx \<noteq> lastContent" by simp
  from assms(5) have inb2: "clock (sleep H 500 w) - startTime < waitMs" by (simp add: clock_sleep)
  show ?thesis
    using loop_unfold_changed(1)[OF assms(1) ch] loop_unfold_stable(1)[OF inb2 assms(6) assms(4)] assms(2)
    by simp
qed

text \<open>
  On the typing host: the poll at 700 ms reads the final text for the first time, the poll
  at 1200 ms returns it.
\<close>

theorem getResponse_stable_after_quiet_witness:
  "getResponse_loop typingHost 0 0 2000 \<lparr> clock = 700, app = 700, dispatched = [] \<rparr> ''Hel'' =
     (\<lparr> response = ''Hello'', stable = True, timeout = False \<rparr>,
      \<lparr> clock = 1200, app = 1200, dispatched = [] \<rparr>)"
proof -
  let ?w = "\<lparr> clock = 700, app = 700 :: nat, dispatched = [] \<rparr>"
  have h1: "clock ?w - 0 < (2000 :: int)" by simp
  have h2: "readTranscript (page typingHost ?w) 0 = ''Hello''"
    by (simp add: page_def typingHost_def transcript_panels)
  have h3: "''Hello'' \<noteq> ''Hel''" by simp
  have h4: "''Hello'' \<noteq> []" by simp
  have h5: "clock ?w + 500 - 0 < (2000 :: int)" by simp
  have s: "sleep typingHost 500 ?w = \<lparr> clock = 1200, app = 1200, dispatched = [] \<rparr>"
    by (simp add: sleep_def typingHost_def)
  have h6: "readTranscript (page typingHost (sleep typingHost 500 ?w)) 0 = ''Hello''"
    by (simp add: s) (simp add: page_def typingHost_def transcript_panels)
  from getResponse_stable_after_quiet[OF h1 h2 h3 h4 h5 h6] show ?thesis by (simp add: s)
qed

text \<open>
  Claim C4 as stated fails for an empty transcript. The second panel of the example document
  has no transcript surface, so every read gives the empty text, unchanged for the whole
  call; \<open>getResponse\<close> with a bound of 2000 ms does not mark it stable and returns the
  timeout record.
\<close>

theorem getResponse_empty_never_stable:
  "readTranscript (page frozenHost (sleep frozenHost 500 (startWorld exampleDocument))) 1 =
     readTranscript (page frozenHost (startWorld exampleDocument)) 1
   \<and> fst (getResponse frozenHost 1 2000 (startWorld exampleDocument)) =
       \<lparr> response = [], stable = False, timeout = True \<rparr>"
proof -
  have r: "readTranscript exampleDocument 1 = []"
    by (simp add: readTranscript_def example_panels at_index_def example_panel1)
  have a: "app (startWorld exampleDocument) = exampleDocument" "clock (startWorld exampleDocument) = 0"
    by (simp_all add: startWorld_def)
  show ?thesis
    by (simp add: getResponse_def loop_unfold_empty(1) loop_unfold_timeout(1) frozenHost_simps
                  clock_sleep a r)
qed

text \<open>
  Claim C5. When the reads of \<open>getResponse\<close> never reach quiet stability, it returns (the
  loop is a total function) the record tagged \<open>timeout\<close>, not \<open>stable\<close>, whose text is the
  last text read (the empty text when nothing was read), and it does so once the bound has
  passed.
\<close>

theorem getResponse_timeout:
  assumes "\<not> quiet [] (polled H idx (clock w) waitMs w [])"
  shows "fst (getResponse H idx waitMs w) =
           \<lparr> response = last ([] # polled H idx (clock w) waitMs w []), stable = False, timeout = True \<rparr>
         \<and> waitMs \<le> clock (snd (getResponse H idx waitMs w)) - clock w"
  using loop_timeout[OF assms] by (simp add: getResponse_def)

text \<open>
  On the counting host every read differs from the one before; with a bound of 2000 ms the
  reads happen at 0, 500, 1000 and 1500 ms and the result holds the last of them.
\<close>

theorem getResponse_timeout_witness:
  "fst (getResponse countingHost 0 2000 (startWorld 0)) =
     \<lparr> response = ''1500'', stable = False, timeout = True \<rparr>
   \<and> 2000 \<le> clock (snd (getResponse countingHost 0 2000 (startWorld 0))) - clock (startWorld (0::nat))"
proof -
  have r: "readTranscript (page countingHost w) 0 = string_of_nat (app w)" for w
    by (simp add: page_def countingHost_def transcript_panels)
  have a: "app (sleep countingHost ms w) = app w + ms" for ms w
    by (simp add: sleep_def countingHost_def)
  have s: "string_of_nat 0 = ''0''" "string_of_nat 500 = ''500''" "string_of_nat 1000 = ''1000''"
    "string_of_nat 1500 = ''1500''"
    by code_simp+
  have p: "polled countingHost 0 (clock (startWorld (0::nat))) 2000 (startWorld 0) [] =
             [''0'', ''500'', ''1000'', ''1500'']"
    by (simp add: loop_unfold_changed(2) loop_unfold_timeout(2) clock_sleep r a s startWorld_def)
  have h: "\<not> quiet [] (polled countingHost 0 (clock (startWorld (0::nat))) 2000 (startWorld 0) [])"
    by (simp add: p)
  have v: "last ([] # polled countingHost 0 (clock (startWorld (0::nat))) 2000 (startWorld 0) []) = ''1500''"
    by (simp add: p)
  from getResponse_timeout[OF h, unfolded v] show ?thesis .
qed

lemma getResponse_typing_example:
  "getResponse typingHost 0 2000 (startWorld 0) =
     (\<lparr> response = ''Hello'', stable = True, timeout = False \<rparr>,
      \<lparr> clock = 1200, app = 1200, dispatched = [] \<rparr>)"
proof -
  have r: "readTranscript (page typingHost w) 0 =
             (if app w < 100 then [] else if app w < 300 then ''Hel'' else ''Hello'')" for w
    by (simp add: page_def typingHost_def transcript_panels)
  have a: "app (sleep typingHost ms w) = app w + ms" for ms w
    by (simp add: sleep_def typingHost_def)
  have e: "sleep typingHost 500 (sleep typingHost 500 (sleep typingHost 200 (startWorld 0))) =
             \<lparr> clock = 1200, app = 1200, dispatched = [] \<rparr>"
    by (simp add: sleep_def typingHost_def startWorld_def)
  have z: "app (startWorld (0::nat)) = 0" "clock (startWorld (0::nat)) = 0"
    by (simp_all add: startWorld_def)
  show ?thesis
    by (simp add: getResponse_def loop_unfold_changed(1) loop_unfold_empty(1) loop_unfold_stable(1)
                  clock_sleep r a z e)
qed

section \<open>Properties of createUI\<close>

lemma attrs_list_textNodes [simp]: "attrs_list (textNodes s) = []"
  by (simp add: attrs_list_def textNodes_def)

lemma elements_textNodes [simp]: "elements (textNodes s) = []"
  by (simp add: elements_def textNodes_def)

lemma innerText_textNodes [simp]: "concat (map innerText (textNodes s)) = s"
  by (simp add: textNodes_def)

lemma panels_createUI:
  "panels (fst (createUI ex d)) =
     map (\<lambda>i. createPanel (conversations ex ! i) i ex) [0 ..< length (conversations ex)]"
  by (simp add: createUI_def Let_def) (rule nth_equalityI, simp_all)

lemma replace_markup_createUI:
  "fst (createUI (replace_markup F G ex) d) = fst (createUI ex d)"
proof -
  have m: "messageBlock (m\<lparr> html := h \<rparr>) = messageBlock m" for m h
    by (simp add: messageBlock_def)
  have c: "createPanel (c\<lparr> fullHTML := F c, messages := map (\<lambda>m. m\<lparr> html := G m \<rparr>) (messages c) \<rparr>) i e1
           = createPanel c i e2" for c i e1 e2
    by (simp add: createPanel_def conversationArea_def inputContainer_def m comp_def)
  have p: "map (\<lambda>(conv, i). createPanel conv i e1)
             (zip (map (\<lambda>c. c\<lparr> fullHTML := F c, messages := map (\<lambda>m. m\<lparr> html := G m \<rparr>) (messages c) \<rparr>) cs) ns)
           = map (\<lambda>(conv, i). createPanel conv i e2) (zip cs ns)" for cs ns e1 e2
    by (induction cs arbitrary: ns) (auto simp: c zip_Cons1 split: list.splits)
  show ?thesis
    by (simp add: createUI_def Let_def replace_markup_def createToolbar_def createAgentHub_def p)
qed

text \<open>
  Claim C3. For every snapshot, every conversation \<open>i\<close> of it and every message \<open>j\<close> of
  that conversation: \<open>createUI\<close> builds one sub-panel per conversation, the conversation
  area of sub-panel \<open>i\<close> has one block per message, and block \<open>j\<close> is styled by the role of
  the message and holds its text as one text node: no element is made from the text, and the
  text read back is the text of the message. The tree does not depend on the raw markup of
  the snapshot (\<open>html\<close>, \<open>fullHTML\<close>).
\<close>

theorem createUI_renders_plain_text:
  assumes "i < length (conversations ex)" and "j < length (messages (conversations ex ! i))"
  shows "length (panels (fst (createUI ex d))) = length (conversations ex)
       \<and> childNodes (childNodes (root (fst (createUI ex d))) ! 2) = panels (fst (createUI ex d))
       \<and> childNodes (panels (fst (createUI ex d)) ! i) ! 1 = conversationArea (conversations ex ! i)
       \<and> length (childNodes (conversationArea (conversations ex ! i))) =
           length (messages (conversations ex ! i))
       \<and> childNodes (conversationArea (conversations ex ! i)) ! j =
           messageBlock (messages (conversations ex ! i) ! j)
       \<and> childNodes (messageBlock (messages (conversations ex ! i) ! j)) =
           textNodes (content (messages (conversations ex ! i) ! j))
       \<and> elements (childNodes (messageBlock (messages (conversations ex ! i) ! j))) = []
       \<and> innerText (messageBlock (messages (conversations ex ! i) ! j)) =
           content (messages (conversations ex ! i) ! j)
       \<and> (\<exists>a. the_attrs (messageBlock (messages (conversations ex ! i) ! j)) = Some a
              \<and> map_of (style a) ''background'' =
                  Some (if role (messages (conversations ex ! i) ! j) = ''user''
                        then ''rgba(0,212,255,0.1)'' else ''rgba(255,255,255,0.05)'')
              \<and> map_of (style a) ''border-left'' =
                  Some (if role (messages (conversations ex ! i) ! j) = ''user''
                        then ''3px solid #00d4ff'' else ''3px solid #888''))
       \<and> fst (createUI (replace_markup F G ex) d) = fst (createUI ex d)"
proof -
  from assms(1) have ne: "conversations ex \<noteq> []" by auto
  from assms(2) have me: "messages (conversations ex ! i) \<noteq> []" by auto
  have p: "panels (fst (createUI ex d)) ! i = createPanel (conversations ex ! i) i ex"
    using assms(1) by (simp add: panels_createUI)
  have r: "childNodes (childNodes (root (fst (createUI ex d))) ! 2) = panels (fst (createUI ex d))"
    using ne by (simp add: createUI_def Let_def childNodes_def)
  have a: "childNodes (createPanel (conversations ex ! i) i ex) ! Suc 0 = conversationArea (conversations ex ! i)"
    by (simp add: createPanel_def childNodes_def)
  have b: "childNodes (conversationArea (conversations ex ! i)) = map messageBlock (messages (conversations ex ! i))"
    using me by (simp add: conversationArea_def childNodes_def)
  have c: "childNodes (messageBlock m) = textNodes (content m)" for m
    by (simp add: messageBlock_def childNodes_def)
  have t: "innerText (messageBlock m) = content m" for m
    by (simp add: messageBlock_def)
  have st: "\<exists>a. the_attrs (messageBlock m) = Some a
              \<and> map_of (style a) ''background'' =
                  Some (if role m = ''user'' then ''rgba(0,212,255,0.1)'' else ''rgba(255,255,255,0.05)'')
              \<and> map_of (style a) ''border-left'' =
                  Some (if role m = ''user'' then ''3px solid #00d4ff'' else ''3px solid #888'')" for m
    by (simp add: messageBlock_def the_attrs_def createElement_def)
  show ?thesis
    using assms(2) st[of "messages (conversations ex ! i) ! j"]
    by (simp add: panels_createUI[of ex d, THEN arg_cong[where f=length]] r p a b c t replace_markup_createUI)
qed

text \<open>
  On the example snapshot the second message is a piece of markup; its block holds it as text.
\<close>

theorem createUI_renders_plain_text_witness:
  "length (panels (fst (createUI exampleExtraction exampleDocument))) = 1
   \<and> length (childNodes (childNodes (panels (fst (createUI exampleExtraction exampleDocument)) ! 0) ! 1)) = 2
   \<and> childNodes (childNodes (childNodes (panels (fst (createUI exampleExtraction exampleDocument)) ! 0) ! 1) ! 1)
       = [Text ''<img src=x onerror=alert(1)>'']
   \<and> innerText (childNodes (childNodes (panels (fst (createUI exampleExtraction exampleDocument)) ! 0) ! 1) ! 1)
       = ''<img src=x onerror=alert(1)>''"
proof -
  have c: "conversations exampleExtraction ! 0 =
      \<lparr> c_index = 0,
        messages =
          [\<lparr> role = ''user'', content = ''hi'', html = ''<p>hi</p>'', timestamp = 0 \<rparr>,
           \<lparr> role = ''assistant'', content = ''<img src=x onerror=alert(1)>'',
             html = ''<b>hello</b>'', timestamp = 0 \<rparr>],
        fullText = ''hi hello'', fullHTML = ''<div><p>hi</p><b>hello</b></div>'',
        c_inputContent = ''draft'' \<rparr>"
    "length (conversations exampleExtraction) = 1"
    by (simp_all add: exampleExtraction_def)
  have h1: "0 < length (conversations exampleExtraction)" by (simp add: c)
  have h2: "1 < length (messages (conversations exampleExtraction ! 0))" by (simp add: c)
  from createUI_renders_plain_text[OF h1 h2, of exampleDocument]
  show ?thesis by (simp add: c textNodes_def)
qed

section \<open>Facts about the document operations\<close>

lemma attrs_list_simps [simp]:
  "attrs_list [] = []"
  "attrs_list (n # ns) = attrs_of n @ attrs_list ns"
  "attrs_list (ns @ ms) = attrs_list ns @ attrs_list ms"
  by (simp_all add: attrs_list_def)

lemma attrs_of_Element: "attrs_of (Element a ks) = a # attrs_list ks"
  by (simp add: attrs_list_def)

lemma elements_simps [simp]:
  "elements [] = []"
  "elements (n # ns) = subtree n @ elements ns"
  "elements (ns @ ms) = elements ns @ elements ms"
  by (simp_all add: elements_def)

lemma subtree_Element: "subtree (Element a ks) = Element a ks # elements ks"
  by (simp add: elements_def)

declare attrs_of.simps(2) [simp del] subtree.simps(2) [simp del]
declare attrs_of_Element [simp] subtree_Element [simp]

lemma the_attrs_simps [simp]:
  "the_attrs (Text s) = None"
  "the_attrs (Element a ks) = Some a"
  by (simp_all add: the_attrs_def)

text \<open>A selector on the attributes finds the elements whose attributes satisfy it.\<close>

lemma filter_subtree_attrs:
  assumes "attr_sel PA P"
  shows "map the_attrs (filter P (subtree n)) = map Some (filter PA (attrs_of n))"
proof (induction n)
  case (Text s)
  show ?case by simp
next
  case (Element a ks)
  then have "map the_attrs (filter P (elements ks)) = map Some (filter PA (attrs_list ks))"
    by (induction ks) simp_all
  with assms show ?case by (simp add: attr_sel_def)
qed

lemma filter_elements_attrs:
  assumes "attr_sel PA P"
  shows "map the_attrs (filter P (elements ns)) = map Some (filter PA (attrs_list ns))"
  by (induction ns) (simp_all add: filter_subtree_attrs[OF assms])

lemma length_querySelectorAll:
  assumes "attr_sel PA P"
  shows "length (querySelectorAll P d) = length (filter PA (document_attrs d))"
proof -
  have "map the_attrs (querySelectorAll P d) = map Some (filter PA (document_attrs d))"
    by (simp add: querySelectorAll_def documentElements_def document_attrs_def
                  filter_elements_attrs[OF assms])
  then have "length (map the_attrs (querySelectorAll P d)) = length (map Some (filter PA (document_attrs d)))"
    by simp
  then show ?thesis by simp
qed

lemma querySelectorAll_attrs:
  assumes "attr_sel PA P" and "p \<in> set (querySelectorAll P d)"
  shows "\<exists>a ks. p = Element a ks \<and> PA a \<and> a \<in> set (document_attrs d)"
proof -
  have m: "map the_attrs (querySelectorAll P d) = map Some (filter PA (document_attrs d))"
    by (simp add: querySelectorAll_def documentElements_def document_attrs_def
                  filter_elements_attrs[OF assms(1)])
  from assms(2) have "the_attrs p \<in> set (map the_attrs (querySelectorAll P d))" by simp
  then have "the_attrs p \<in> Some ` set (filter PA (document_attrs d))" by (simp add: m)
  then obtain a where "the_attrs p = Some a" "PA a" "a \<in> set (document_attrs d)" by auto
  then show ?thesis by (cases p) auto
qed

lemma attr_sel_has_id: "attr_sel (\<lambda>a. ident a = i) (has_id i)"
  by (simp add: attr_sel_def has_id_def)

lemma attr_sel_has_class: "attr_sel (\<lambda>a. c \<in> set (classList (className a))) (has_class c)"
  by (simp add: attr_sel_def has_class_def)

lemma attr_sel_panel: "attr_sel (\<lambda>a. ''chat-client-root'' \<in> set (classList (className a))) sel_panel"
  by (simp add: sel_panel_def attr_sel_has_class)

text \<open>Changing attributes keeps what the change keeps.\<close>

lemma map_update_all:
  assumes "\<And>a. g (f a) = g a"
  shows "map g (attrs_of (update_all P f n)) = map g (attrs_of n)"
proof (induction n)
  case (Text s)
  show ?case by simp
next
  case (Element a ks)
  then have "map g (attrs_list (map (update_all P f) ks)) = map g (attrs_list ks)"
    by (induction ks) simp_all
  with assms show ?case by simp
qed

lemma map_update_all_list:
  assumes "\<And>a. g (f a) = g a"
  shows "map g (attrs_list (map (update_all P f) ns)) = map g (attrs_list ns)"
  by (induction ns) (simp_all add: map_update_all[where g = g and f = f, OF assms])

lemma map_update_first:
  shows "\<forall>a. g (f a) = g a \<Longrightarrow> update_first_node P f n = Some n'
           \<Longrightarrow> map g (attrs_of n') = map g (attrs_of n)"
    and "\<forall>a. g (f a) = g a \<Longrightarrow> update_first_list P f ns = Some ns'
           \<Longrightarrow> map g (attrs_list ns') = map g (attrs_list ns)"
proof (induction P f n and P f ns arbitrary: n' and ns' rule: update_first_node_update_first_list.induct)
  case (1 P f s)
  then show ?case by simp
next
  case (2 P f a ks)
  then show ?case by (auto split: if_splits)
next
  case (3 P f)
  then show ?case by simp
next
  case (4 P f k ks)
  then show ?case by (auto split: option.splits)
qed

lemma all_update_all:
  assumes "attr_sel PA P" and "\<And>a. PA (f a) = PA a" and "\<And>a. PA a \<Longrightarrow> Q (f a)"
  shows "\<forall>a \<in> set (attrs_of (update_all P f n)). PA a \<longrightarrow> Q a"
proof (induction n)
  case (Text s)
  show ?case by simp
next
  case (Element a ks)
  then have "\<forall>a \<in> set (attrs_list (map (update_all P f) ks)). PA a \<longrightarrow> Q a"
    by (induction ks) auto
  with assms show ?case by (auto simp: attr_sel_def)
qed

lemma all_update_all_list:
  assumes "attr_sel PA P" and "\<And>a. PA (f a) = PA a" and "\<And>a. PA a \<Longrightarrow> Q (f a)"
  shows "\<forall>a \<in> set (attrs_list (map (update_all P f) ns)). PA a \<longrightarrow> Q a"
  using all_update_all[where PA = PA and P = P and f = f and Q = Q, OF assms] by (induction ns) auto

lemma all_update_first:
  shows "\<forall>a. R (f a) \<Longrightarrow> update_first_node P f n = Some n' \<Longrightarrow> \<forall>a \<in> set (attrs_of n). R a
           \<Longrightarrow> \<forall>a \<in> set (attrs_of n'). R a"
    and "\<forall>a. R (f a) \<Longrightarrow> update_first_list P f ns = Some ns' \<Longrightarrow> \<forall>a \<in> set (attrs_list ns). R a
           \<Longrightarrow> \<forall>a \<in> set (attrs_list ns'). R a"
proof (induction P f n and P f ns arbitrary: n' and ns' rule: update_first_node_update_first_list.induct)
  case (1 P f s)
  then show ?case by simp
next
  case (2 P f a ks)
  then show ?case by (auto split: if_splits)
next
  case (3 P f)
  then show ?case by simp
next
  case (4 P f k ks)
  then show ?case by (auto split: option.splits)
qed

text \<open>Removing every match leaves none; removing the first match leaves fewer.\<close>

lemma prune_none:
  assumes "attr_sel PA P"
  shows "\<not> P n \<Longrightarrow> filter PA (attrs_of (prune P n)) = []"
proof (induction n)
  case (Text s)
  show ?case by simp
next
  case (Element a ks)
  have "filter PA (attrs_list (map (prune P) (filter (\<lambda>k. \<not> P k) ks))) = []"
    using Element.IH by (induction ks) simp_all
  with assms Element.prems show ?case by (simp add: attr_sel_def)
qed

lemma remove_all_none:
  assumes "attr_sel PA P"
  shows "filter PA (attrs_list (remove_all P ns)) = []"
  unfolding remove_all_def by (induction ns) (simp_all add: prune_none[OF assms])

lemma remove_first_fewer:
  shows "attr_sel PA P \<Longrightarrow> remove_first_node P n = Some n'
           \<Longrightarrow> length (filter PA (attrs_of n')) < length (filter PA (attrs_of n))"
    and "attr_sel PA P \<Longrightarrow> remove_first_list P ns = Some ns'
           \<Longrightarrow> length (filter PA (attrs_list ns')) < length (filter PA (attrs_list ns))"
proof (induction P n and P ns arbitrary: n' and ns' rule: remove_first_node_remove_first_list.induct)
  case (1 P s)
  then show ?case by simp
next
  case (2 P a ks)
  then show ?case by auto
next
  case (3 P)
  then show ?case by simp
next
  case (4 P k ks)
  show ?case
  proof (cases "P k")
    case True
    with 4 obtain a cs where "k = Element a cs" "PA a"
      by (cases k) (auto simp: attr_sel_def)
    with True 4 show ?thesis by simp
  next
    case False
    with 4 show ?thesis by (auto split: option.splits)
  qed
qed


section \<open>Facts about the replacement UI\<close>

lemma kept_by_set_display [simp]:
  "ident (set_display v a) = ident a"
  "className (set_display v a) = className a"
  by (simp_all add: set_display_def)

lemma kept_by_hideElement [simp]:
  "ident (hideElement a) = ident a"
  "className (hideElement a) = className a"
  by (simp_all add: hideElement_def)

lemma get_display_cleared [simp]: "get_display (set_display [] a) = []"
proof -
  have "map_of (rev (filter (\<lambda>kv. fst kv \<noteq> ''display'') xs)) ''display'' = None" for xs :: "(string \<times> string) list"
    by (auto simp: map_of_eq_None_iff)
  then show ?thesis by (simp add: get_display_def set_display_def)
qed

lemma map_doc_update_all:
  assumes "\<And>a. g (f a) = g a"
  shows "map g (document_attrs (doc_update_all P f d)) = map g (document_attrs d)"
  by (simp add: document_attrs_def doc_update_all_def map_update_all_list[where g = g and f = f, OF assms])

lemma map_doc_update_first:
  assumes "\<And>a. g (f a) = g a"
  shows "map g (document_attrs (doc_update_first P f d)) = map g (document_attrs d)"
proof -
  from assms have a: "\<forall>a. g (f a) = g a" by simp
  show ?thesis
    by (auto simp: document_attrs_def doc_update_first_def map_update_first(2)[OF a]
             split: option.splits)
qed

lemma count_by_ident:
  fixes xs ys :: "attrs list"
  assumes "map ident xs = map ident ys"
  shows "length (filter (\<lambda>a. ident a = i) xs) = length (filter (\<lambda>a. ident a = i) ys)"
proof -
  have "length (filter (\<lambda>a. ident a = i) zs) = count_list (map ident zs) i" for zs :: "attrs list"
    by (induction zs) simp_all
  with assms show ?thesis by simp
qed

lemma roots_count:
  "length (replacementRoots b) = length (filter (\<lambda>a. ident a = hub_id) (document_attrs (doc b)))"
  by (simp add: replacementRoots_def length_querySelectorAll[OF attr_sel_has_id])

text \<open>The tree \<open>createUI\<close> builds holds one element with the id of the root: the root.\<close>

lemma attrs_list_map: "set (attrs_list (map f xs)) = (\<Union>x \<in> set xs. set (attrs_of (f x)))"
  by (induction xs) auto

lemma ident_createPanel: "a \<in> set (attrs_of (createPanel conv i ex)) \<Longrightarrow> ident a = []"
  by (auto simp: createPanel_def panelHeader_def conversationArea_def inputContainer_def
        createButton_def messageBlock_def emptyMsg_def createElement_def Let_def attrs_list_map
      split: if_splits)

lemma ident_toolbar: "a \<in> set (attrs_of (createToolbar ex)) \<Longrightarrow> ident a \<noteq> hub_id"
  by (auto simp: createToolbar_def createButton_def createElement_def Let_def hub_id_def)

lemma ident_agentHub: "a \<in> set (attrs_of (createAgentHub ex)) \<Longrightarrow> ident a \<noteq> hub_id"
  by (auto simp: createAgentHub_def agentSlot_def createElement_def Let_def hub_id_def attrs_list_map)

lemma root_createUI:
  "\<exists>a ks. root (fst (createUI ex d)) = Element a ks \<and> ident a = hub_id
          \<and> filter (\<lambda>a. ident a = hub_id) (attrs_list ks) = []"
proof -
  have p: "a \<in> set (attrs_list (map (\<lambda>(conv, i). createPanel conv i ex) cs)) \<Longrightarrow> ident a \<noteq> hub_id" for a cs
    by (auto simp: attrs_list_map hub_id_def dest!: ident_createPanel)
  have "filter (\<lambda>a. ident a = hub_id) xs = [] \<longleftrightarrow> (\<forall>a \<in> set xs. ident a \<noteq> hub_id)" for xs :: "attrs list"
    by (simp add: filter_empty_conv)
  then show ?thesis
    using p ident_toolbar[of _ ex] ident_agentHub[of _ ex]
    by (auto simp: createUI_def Let_def placeholder_def createElement_def hub_id_def)
qed

lemma root_createUI_count:
  "length (filter (\<lambda>a. ident a = hub_id) (attrs_of (root (fst (createUI ex d))))) = 1"
  using root_createUI[of ex d] by auto

text \<open>The observers and the document through \<open>stopObserver\<close>, \<open>mount\<close> and \<open>destroyOriginalUI\<close>.\<close>

lemma stopObserver_simps:
  "doc (snd (stopObserver s)) = doc (snd s)"
  "panelObserver (fst (stopObserver s)) = None"
  "watcher_tracked s \<Longrightarrow> observers (snd (stopObserver s)) = []"
  by (auto simp: stopObserver_def watcher_tracked_def split: option.splits)

lemma mount_observers:
  assumes "watcher_tracked s"
  shows "observers (snd (snd (mount ui s))) = []" and "panelObserver (fst (snd (mount ui s))) = None"
proof -
  let ?b1 = "(snd s)\<lparr> doc := doc_remove_all (has_id hub_id) (doc (snd s)) \<rparr>"
  from assms have t: "watcher_tracked (fst s, ?b1)" by (simp add: watcher_tracked_def)
  show "observers (snd (snd (mount ui s))) = []"
    by (simp add: mount_def Let_def stopObserver_simps(3)[OF t])
  show "panelObserver (fst (snd (mount ui s))) = None"
    by (simp add: mount_def Let_def setCustomUIRef_def stopObserver_simps)
qed

lemma mount_document:
  "document_attrs (doc (snd (snd (mount ui s)))) =
     attrs_list (remove_all (has_id hub_id) (head (doc (snd s)))) @
     attrs_list (remove_all (has_id hub_id) (body (doc (snd s)))) @ attrs_of (root ui)"
  by (simp add: mount_def Let_def stopObserver_simps document_attrs_def doc_remove_all_def)

lemma mount_roots:
  "length (replacementRoots (snd (snd (mount ui s)))) =
     length (filter (\<lambda>a. ident a = hub_id) (attrs_of (root ui)))"
  by (simp add: roots_count mount_document remove_all_none[OF attr_sel_has_id])

lemma destroyOriginalUI_idents:
  "map ident (document_attrs (doc (snd (snd (destroyOriginalUI s))))) =
   map ident (document_attrs (doc (snd s)))"
  by (simp add: destroyOriginalUI_def Let_def map_doc_update_all map_doc_update_first
           split: option.splits)

lemma destroyOriginalUI_roots:
  "length (replacementRoots (snd (snd (destroyOriginalUI s)))) = length (replacementRoots (snd s))"
  by (simp add: roots_count count_by_ident[OF destroyOriginalUI_idents])

lemma destroyOriginalUI_observers:
  "panelObserver (fst s) = None \<Longrightarrow>
     observers (snd (snd (destroyOriginalUI s))) = observers (snd s) @ [nextObserver (snd s)]
     \<and> panelObserver (fst (snd (destroyOriginalUI s))) = Some (nextObserver (snd s))"
  "panelObserver (fst s) = Some ob \<Longrightarrow>
     observers (snd (snd (destroyOriginalUI s))) = observers (snd s)
     \<and> panelObserver (fst (snd (destroyOriginalUI s))) = Some ob"
  by (simp_all add: destroyOriginalUI_def Let_def)

text \<open>
  On one loaded instance of custom-ui.js whose watcher (if any) is the one \<open>panelObserver\<close>
  holds: \<open>mount\<close> followed by \<open>destroyOriginalUI\<close> leaves one replacement root and one
  watcher, the one \<open>panelObserver\<close> holds.
\<close>

lemma mount_then_destroyOriginalUI:
  assumes "watcher_tracked s"
  shows "length (replacementRoots (snd (snd (destroyOriginalUI (snd (mount (fst (createUI ex d)) s)))))) = 1"
    and "observers (snd (snd (destroyOriginalUI (snd (mount (fst (createUI ex d)) s)))))
           = [nextObserver (snd s)]"
    and "watcher_tracked (snd (destroyOriginalUI (snd (mount (fst (createUI ex d)) s))))"
proof -
  let ?ui = "fst (createUI ex d)"
  let ?s1 = "snd (mount ?ui s)"
  note o = mount_observers[OF assms, of ?ui]
  have n: "nextObserver (snd ?s1) = nextObserver (snd s)"
    by (simp add: mount_def Let_def stopObserver_def setCustomUIRef_def split: option.splits)
  note e = destroyOriginalUI_observers(1)[OF o(2)]
  show "length (replacementRoots (snd (snd (destroyOriginalUI ?s1)))) = 1"
    by (simp add: destroyOriginalUI_roots mount_roots root_createUI_count)
  show "observers (snd (snd (destroyOriginalUI ?s1))) = [nextObserver (snd s)]"
    using e by (simp add: o(1) n)
  show "watcher_tracked (snd (destroyOriginalUI ?s1))"
    using e by (simp add: o(1) watcher_tracked_def)
qed

text \<open>
  \<open>mount\<close> alone, twice: one replacement root, and no watcher (\<open>mount\<close> disconnects the one
  its module holds and installs none).
\<close>

lemma mount_twice:
  assumes "watcher_tracked s"
  shows "length (replacementRoots (snd (snd (mount (fst (createUI ex2 d2))
            (snd (mount (fst (createUI ex1 d1)) s)))))) = 1"
    and "observers (snd (snd (mount (fst (createUI ex2 d2))
            (snd (mount (fst (createUI ex1 d1)) s))))) = []"
proof -
  note o = mount_observers[OF assms, of "fst (createUI ex1 d1)"]
  from o have t: "watcher_tracked (snd (mount (fst (createUI ex1 d1)) s))"
    by (simp add: watcher_tracked_def)
  show "length (replacementRoots (snd (snd (mount (fst (createUI ex2 d2))
            (snd (mount (fst (createUI ex1 d1)) s)))))) = 1"
    by (simp add: mount_roots root_createUI_count)
  show "observers (snd (snd (mount (fst (createUI ex2 d2))
            (snd (mount (fst (createUI ex1 d1)) s))))) = []"
    by (rule mount_observers(1)[OF t])
qed

text \<open>\<open>setupEventBridges\<close> rejects exactly when one of its two names is already bound.\<close>

lemma setupEventBridges_keeps:
  "doc (snd (setupEventBridges b)) = doc b"
  "observers (snd (setupEventBridges b)) = observers b"
  "nextObserver (snd (setupEventBridges b)) = nextObserver b"
  by (simp_all add: setupEventBridges_def exposeFunction_def)

lemma setupEventBridges_rejects:
  "(fst (setupEventBridges b) \<noteq> None) =
     (''cascadeSendMessage'' \<in> set (bindings b) \<or> ''cascadeSpawnPanel'' \<in> set (bindings b))"
  by (simp add: setupEventBridges_def exposeFunction_def)

lemma setupEventBridges_binds:
  "''cascadeSendMessage'' \<in> set (bindings (snd (setupEventBridges b)))"
  by (simp add: setupEventBridges_def exposeFunction_def)

lemma bindings_mount: "bindings (snd (snd (mount ui s))) = bindings (snd s)"
  by (simp add: mount_def Let_def stopObserver_def setCustomUIRef_def split: option.splits)

lemma bindings_destroyOriginalUI: "bindings (snd (snd (destroyOriginalUI s))) = bindings (snd s)"
  by (simp add: destroyOriginalUI_def Let_def split: option.splits)

text \<open>
  \<open>mountCustomUI\<close> on a connected controller: whatever the page held, the call leaves one
  replacement root, adds one watcher to those already connected, and throws exactly when
  an earlier call has bound the bridge functions.
\<close>

lemma mountCustomUI_connected:
  assumes "connected (fst s)"
  shows "connected (fst (snd (mountCustomUI ex s)))"
    and "mountedUI (fst (snd (mountCustomUI ex s))) \<noteq> None"
    and "length (replacementRoots (snd (snd (mountCustomUI ex s)))) = 1"
    and "observers (snd (snd (mountCustomUI ex s))) = observers (snd s) @ [nextObserver (snd s)]"
    and "nextObserver (snd (snd (mountCustomUI ex s))) = Suc (nextObserver (snd s))"
    and "isl (fst (mountCustomUI ex s)) =
           (''cascadeSendMessage'' \<in> set (bindings (snd s)) \<or> ''cascadeSpawnPanel'' \<in> set (bindings (snd s)))"
    and "''cascadeSendMessage'' \<in> set (bindings (snd (snd (mountCustomUI ex s))))"
proof -
  let ?ui = "fst (createUI ex (doc (snd s)))"
  let ?s0 = "(initial_module, (snd s)\<lparr> doc := snd (createUI ex (doc (snd s))) \<rparr>)"
  let ?s1 = "snd (mount ?ui ?s0)"
  let ?s2 = "destroyOriginalUI ?s1"
  let ?result = "\<lparr> success = True,
                        extractedPanels = length (snap_panels ex),
                        extractedConversations = length (conversations ex),
                        handlersExtracted = length (handlers ex),
                        wired = 0,
                        destroyed = fst ?s2,
                        mounted = (getElementById hub_id (doc (snd (snd ?s2))) \<noteq> None) \<rparr>"
  let ?br = "setupEventBridges (snd (snd ?s2))"
  have m: "mountCustomUI ex s =
      ((case fst ?br of Some e \<Rightarrow> Inl e | None \<Rightarrow> Inr ?result),
       ((fst s)\<lparr> mountedUI := Some ?result \<rparr>, snd ?br))"
    by (simp only: mountCustomUI_def Let_def assms not_True_eq_False if_False)
  have o: "panelObserver (fst ?s1) = None" "observers (snd ?s1) = observers (snd s)"
    "nextObserver (snd ?s1) = nextObserver (snd s)"
    by (simp_all add: mount_def Let_def stopObserver_def initial_module_def setCustomUIRef_def)
  note e = destroyOriginalUI_observers(1)[OF o(1)]
  have n: "nextObserver (snd (snd ?s2)) = Suc (nextObserver (snd ?s1))"
    using o(1) by (simp add: destroyOriginalUI_def Let_def)
  have b: "bindings (snd (snd ?s2)) = bindings (snd s)"
    by (simp add: bindings_destroyOriginalUI bindings_mount)
  show "connected (fst (snd (mountCustomUI ex s)))"
    "mountedUI (fst (snd (mountCustomUI ex s))) \<noteq> None"
    using assms by (simp_all add: m)
  show "length (replacementRoots (snd (snd (mountCustomUI ex s)))) = 1"
    by (simp add: m roots_count setupEventBridges_keeps(1))
       (simp add: roots_count[symmetric] destroyOriginalUI_roots mount_roots root_createUI_count)
  show "observers (snd (snd (mountCustomUI ex s))) = observers (snd s) @ [nextObserver (snd s)]"
    using e by (simp add: m setupEventBridges_keeps(2) o(2,3))
  show "nextObserver (snd (snd (mountCustomUI ex s))) = Suc (nextObserver (snd s))"
    by (simp add: m setupEventBridges_keeps(3) n o(3))
  show "isl (fst (mountCustomUI ex s)) =
           (''cascadeSendMessage'' \<in> set (bindings (snd s)) \<or> ''cascadeSpawnPanel'' \<in> set (bindings (snd s)))"
    using setupEventBridges_rejects[of "snd (snd ?s2)"]
    by (cases "fst ?br") (simp_all add: m b)
  show "''cascadeSendMessage'' \<in> set (bindings (snd (snd (mountCustomUI ex s))))"
    by (simp add: m setupEventBridges_binds)
qed

section \<open>Properties of mountCustomUI\<close>

text \<open>
  Claim C2, on the example page. The first \<open>mountCustomUI\<close> returns its result and leaves
  one replacement root and one watcher. The second call, made right after it, leaves one
  replacement root but two connected watchers, and throws: it evaluates custom-ui.js anew,
  so \<open>stopObserver\<close> in \<open>mount\<close> finds \<open>panelObserver\<close> empty and disconnects nothing,
  \<open>destroyOriginalUI\<close> connects a second watcher, and \<open>setupEventBridges\<close> finds the
  bridge functions already bound.
\<close>

theorem mountCustomUI_twice_two_watchers:
  "\<not> isl (fst (mountCustomUI exampleSnapshot (exampleController, exampleBrowser)))
   \<and> length (replacementRoots (snd mountedExample)) = 1
   \<and> observers (snd mountedExample) = [0]
   \<and> isl (fst (mountCustomUI exampleSnapshot mountedExample))
   \<and> length (replacementRoots (snd remountedExample)) = 1
   \<and> observers (snd remountedExample) = [0, 1]"
proof -
  have h: "connected (fst (exampleController, exampleBrowser))"
    by (simp add: exampleController_def)
  note m1 = mountCustomUI_connected[OF h, of exampleSnapshot, folded mountedExample_def]
  note m2 = mountCustomUI_connected[OF m1(1), of exampleSnapshot, folded remountedExample_def]
  from m1(6) have a: "\<not> isl (fst (mountCustomUI exampleSnapshot (exampleController, exampleBrowser)))"
    by (simp add: exampleBrowser_def)
  from m1(4) have o1: "observers (snd mountedExample) = [0]"
    by (simp add: exampleBrowser_def)
  from m1(5) have n1: "nextObserver (snd mountedExample) = 1"
    by (simp add: exampleBrowser_def)
  from m2(6) m1(7) have b: "isl (fst (mountCustomUI exampleSnapshot mountedExample))"
    by simp
  from m2(4) have o2: "observers (snd remountedExample) = [0, 1]"
    by (simp add: o1 n1)
  from a m1(3) o1 b m2(3) o2 show ?thesis by simp
qed

section \<open>Properties of restoreUI\<close>

lemma remove_first_nothing:
  shows "attr_sel PA P \<Longrightarrow> remove_first_node P n = None \<Longrightarrow> filter PA (attrs_list (childNodes n)) = []"
    and "attr_sel PA P \<Longrightarrow> remove_first_list P ns = None \<Longrightarrow> filter PA (attrs_list ns) = []"
proof (induction P n and P ns rule: remove_first_node_remove_first_list.induct)
  case (1 P s)
  then show ?case by (simp add: childNodes_def)
next
  case (2 P a ks)
  then show ?case by (simp add: childNodes_def)
next
  case (3 P)
  then show ?case by simp
next
  case (4 P k ks)
  from 4 have nk: "\<not> P k" by (auto split: if_splits)
  with 4 have a: "remove_first_node P k = None" and b: "remove_first_list P ks = None"
    by (auto split: option.splits)
  from 4 nk a have "filter PA (attrs_list (childNodes k)) = []" by simp
  moreover from nk "4.prems"(1) have "filter PA (attrs_of k) = filter PA (attrs_list (childNodes k))"
    by (cases k) (auto simp: attr_sel_def childNodes_def)
  moreover from 4 nk a b have "filter PA (attrs_list ks) = []" by simp
  ultimately show ?case by simp
qed

lemma doc_remove_first_fewer:
  assumes "attr_sel PA P"
  shows "length (filter PA (document_attrs (doc_remove_first P d)))
           \<le> length (filter PA (document_attrs d)) - 1"
proof (cases "remove_first_list P (head d)")
  case (Some h)
  from remove_first_fewer(2)[OF assms Some] show ?thesis
    by (simp add: doc_remove_first_def Some document_attrs_def)
next
  case None
  note hd = remove_first_nothing(2)[OF assms None]
  show ?thesis
  proof (cases "remove_first_list P (body d)")
    case (Some b)
    from remove_first_fewer(2)[OF assms Some] show ?thesis
      by (simp add: doc_remove_first_def None Some document_attrs_def hd)
  next
    case nb: None
    from remove_first_nothing(2)[OF assms nb] show ?thesis
      by (simp add: doc_remove_first_def None nb document_attrs_def hd)
  qed
qed

lemma all_doc_update_all:
  assumes "attr_sel PA P" and "\<And>a. PA (f a) = PA a" and "\<And>a. PA a \<Longrightarrow> Q (f a)"
  shows "\<forall>a \<in> set (document_attrs (doc_update_all P f d)). PA a \<longrightarrow> Q a"
  using all_update_all_list[where PA = PA and P = P and f = f and Q = Q, OF assms]
  by (auto simp: document_attrs_def doc_update_all_def)

lemma all_doc_update_first:
  assumes "\<And>a. R (f a)" and "\<forall>a \<in> set (document_attrs d). R a"
  shows "\<forall>a \<in> set (document_attrs (doc_update_first P f d)). R a"
proof -
  from assms(1) have a: "\<forall>a. R (f a)" by simp
  show ?thesis
    using assms(2) all_update_first(2)[where R = R and f = f and P = P, OF a]
    by (auto simp: document_attrs_def doc_update_first_def split: option.splits)
qed

lemma restoreUI_mounted:
  assumes "connected (fst s)" and "mountedUI (fst s) \<noteq> None"
  shows "restored (fst (restoreUI s))"
    and "mountedUI (fst (snd (restoreUI s))) = None"
    and "observers (snd (snd (restoreUI s))) = observers (snd s)"
    and "length (replacementRoots (snd (snd (restoreUI s)))) \<le> length (replacementRoots (snd s)) - 1"
    and "list_all (\<lambda>p. styleDisplay p = []) (querySelectorAll sel_panel (doc (snd (snd (restoreUI s)))))"
proof -
  let ?PA = "\<lambda>a. ''chat-client-root'' \<in> set (classList (className a))"
  let ?d1 = "doc_remove_first (has_id hub_id) (doc (snd s))"
  let ?d2 = "doc_update_all sel_panel (set_display []) ?d1"
  let ?d3 = "doc_update_first (has_class ''sidebar'') (set_display []) ?d2"
  have r: "restoreUI s = (\<lparr> restored = True, restore_error = None \<rparr>,
             ((fst s)\<lparr> mountedUI := None \<rparr>, (snd s)\<lparr> doc := ?d3 \<rparr>))"
    using assms by (simp add: restoreUI_def Let_def)
  show "restored (fst (restoreUI s))" "mountedUI (fst (snd (restoreUI s))) = None"
    "observers (snd (snd (restoreUI s))) = observers (snd s)"
    by (simp_all add: r)
  have "map ident (document_attrs ?d3) = map ident (document_attrs ?d1)"
    by (simp add: map_doc_update_all map_doc_update_first)
  from count_by_ident[OF this, of hub_id] doc_remove_first_fewer[OF attr_sel_has_id, of hub_id "doc (snd s)"]
  show "length (replacementRoots (snd (snd (restoreUI s)))) \<le> length (replacementRoots (snd s)) - 1"
    by (simp add: r roots_count)
  have "\<forall>a \<in> set (document_attrs ?d2). ?PA a \<longrightarrow> get_display a = []"
    by (rule all_doc_update_all[OF attr_sel_panel]) simp_all
  then have all: "\<forall>a \<in> set (document_attrs ?d3). ?PA a \<longrightarrow> get_display a = []"
    by (rule all_doc_update_first[rotated]) simp
  show "list_all (\<lambda>p. styleDisplay p = []) (querySelectorAll sel_panel (doc (snd (snd (restoreUI s)))))"
    unfolding list_all_iff
  proof
    fix p assume "p \<in> set (querySelectorAll sel_panel (doc (snd (snd (restoreUI s)))))"
    then have "p \<in> set (querySelectorAll sel_panel ?d3)" by (simp add: r)
    from querySelectorAll_attrs[OF attr_sel_panel this] all
    show "styleDisplay p = []" by (auto simp: styleDisplay_def)
  qed
qed

text \<open>
  What \<open>restoreUI\<close> does undo. For every page on which the controller is connected: after
  \<open>mountCustomUI\<close>, \<open>restoreUI\<close> reports \<open>restored: true\<close>, clears the mount status, leaves
  no replacement root in the document, and leaves every conversation panel with an empty
  \<open>style.display\<close>, so that every panel the mount had hidden is displayed again.
\<close>

lemma restoreUI_after_mount:
  assumes "connected (fst s)"
  shows "restored (fst (restoreUI (snd (mountCustomUI ex s))))
       \<and> mountedUI (fst (snd (restoreUI (snd (mountCustomUI ex s))))) = None
       \<and> replacementRoots (snd (snd (restoreUI (snd (mountCustomUI ex s))))) = []
       \<and> list_all (\<lambda>p. styleDisplay p = [])
           (querySelectorAll sel_panel (doc (snd (snd (restoreUI (snd (mountCustomUI ex s)))))))"
proof -
  note m = mountCustomUI_connected[OF assms, of ex]
  note r = restoreUI_mounted[OF m(1) m(2)]
  from r(4) m(3) have "length (replacementRoots (snd (snd (restoreUI (snd (mountCustomUI ex s)))))) = 0"
    by simp
  with r(1,2,5) show ?thesis by simp
qed

text \<open>
  On the example page.
\<close>

lemma restoreUI_after_mount_example:
  "\<not> isl (fst (mountCustomUI exampleSnapshot (exampleController, exampleBrowser)))
   \<and> restored (fst (restoreUI mountedExample))
   \<and> mountedUI (fst restoredExample) = None
   \<and> replacementRoots (snd restoredExample) = []
   \<and> list_all (\<lambda>p. styleDisplay p = []) (querySelectorAll sel_panel (doc (snd restoredExample)))"
proof -
  have h: "connected (fst (exampleController, exampleBrowser))"
    by (simp add: exampleController_def)
  from mountCustomUI_connected(6)[OF h, of exampleSnapshot]
  have a: "\<not> isl (fst (mountCustomUI exampleSnapshot (exampleController, exampleBrowser)))"
    by (simp add: exampleBrowser_def)
  from restoreUI_after_mount[OF h, of exampleSnapshot] a
  show ?thesis by (simp add: mountedExample_def restoredExample_def)
qed

text \<open>The sibling \<open>restoreOriginalUI\<close> of custom-ui.js disconnects the watcher of its module.\<close>

lemma restoreOriginalUI_disconnects:
  assumes "watcher_tracked s"
  shows "observers (snd (restoreOriginalUI s)) = []"
    and "panelObserver (fst (restoreOriginalUI s)) = None"
  using assms by (simp_all add: restoreOriginalUI_def Let_def stopObserver_simps)

text \<open>
  Claim C1, on the example page. Before the mount no watcher is connected and the tab, the
  auxiliary bar and the two panels are displayed; \<open>mountCustomUI\<close> hides the four and
  connects a watcher. After \<open>restoreUI\<close> the watcher is still connected, and the tab and the
  auxiliary bar are still hidden: only the panels are displayed again. (\<open>restoreOriginalUI\<close>
  of custom-ui.js, which the close control of the replacement UI calls, does disconnect the
  watcher and un-hide the auxiliary bar.)
\<close>

theorem restoreUI_leaves_watcher_and_chrome:
  "\<not> isl (fst (mountCustomUI exampleSnapshot (exampleController, exampleBrowser)))
   \<and> observers exampleBrowser = []
   \<and> map styleDisplay (querySelectorAll sel_hiddenByMount exampleDocument) = [[], [], [], []]
   \<and> mountedUI (fst mountedExample) \<noteq> None
   \<and> map styleDisplay (querySelectorAll sel_hiddenByMount (doc (snd mountedExample)))
       = [''none'', ''none'', ''none'', ''none'']
   \<and> observers (snd restoredExample) = [0]
   \<and> map styleDisplay (querySelectorAll sel_hiddenByMount (doc (snd restoredExample)))
       = [''none'', ''none'', [], []]"
proof -
  have h: "connected (fst (exampleController, exampleBrowser))"
    by (simp add: exampleController_def)
  note m = mountCustomUI_connected[OF h, of exampleSnapshot, folded mountedExample_def]
  note r = restoreUI_mounted(3)[OF m(1) m(2), folded restoredExample_def]
  from m(6) have a: "\<not> isl (fst (mountCustomUI exampleSnapshot (exampleController, exampleBrowser)))"
    by (simp add: exampleBrowser_def)
  have o: "observers (snd restoredExample) = [0]"
    using r m(4) by (simp add: exampleBrowser_def)
  have d0: "map styleDisplay (querySelectorAll sel_hiddenByMount exampleDocument) = [[], [], [], []]"
    by code_simp
  have d1: "map styleDisplay (querySelectorAll sel_hiddenByMount (doc (snd mountedExample)))
       = [''none'', ''none'', ''none'', ''none'']"
    by code_simp
  have d2: "map styleDisplay (querySelectorAll sel_hiddenByMount (doc (snd restoredExample)))
       = [''none'', ''none'', [], []]"
    by code_simp
  show ?thesis using a m(2) o d0 d1 d2 by (simp add: exampleBrowser_def)
qed

end
